theory Spec2Isabelle
  imports Complex_Main "HOL-Library.Option_ord"
begin

section \<open>Ticker resolution: string utilities\<close>

text \<open>
  The development embeds \<^verbatim>\<open>lib/stringUtils.js\<close> and \<^verbatim>\<open>lib/tickerResolution.js\<close>.
  Strings are lists of 8-bit characters and stand for JavaScript strings of ASCII
  characters only (\<open>ascii\<close> below): on those, case mapping touches the letters
  \<open>A-Z\<close>/\<open>a-z\<close> only and the white space of \<^verbatim>\<open>trim\<close> and \<^verbatim>\<open>\s\<close> is tab, line
  feed, vertical tab, form feed, carriage return and space. Beyond ASCII JavaScript
  does more (\<^verbatim>\<open>toUpperCase\<close> maps the sharp s to \<^verbatim>\<open>SS\<close>, \<^verbatim>\<open>trim\<close> strips the
  no-break space), which the functions below do not follow; statements about the
  resolver on arbitrary input strings therefore assume \<open>ascii\<close>. JavaScript numbers are
  exact rationals here; \<^verbatim>\<open>undefined\<close> and NaN are \<open>None\<close>.
\<close>

subsection \<open>Characters\<close>

definition is_upper :: "char \<Rightarrow> bool" where
  "is_upper c = (of_char c \<in> {65 .. 90 :: nat})"

definition is_lower :: "char \<Rightarrow> bool" where
  "is_lower c = (of_char c \<in> {97 .. 122 :: nat})"

text \<open>White space of \<^verbatim>\<open>String.prototype.trim\<close> and of \<^verbatim>\<open>\s\<close> inside ASCII:
  tab, line feed, vertical tab, form feed, carriage return, space.\<close>

definition is_space :: "char \<Rightarrow> bool" where
  "is_space c = (of_char c \<in> {9, 10, 11, 12, 13, 32 :: nat})"

definition is_ascii :: "char \<Rightarrow> bool" where
  "is_ascii c = (of_char c < (128 :: nat))"

definition ascii :: "string \<Rightarrow> bool" where
  "ascii s = list_all is_ascii s"

definition upper_char :: "char \<Rightarrow> char" where
  "upper_char c = (if is_lower c then char_of (of_char c - (32 :: nat)) else c)"

definition lower_char :: "char \<Rightarrow> char" where
  "lower_char c = (if is_upper c then char_of (of_char c + (32 :: nat)) else c)"

definition toUpperCase :: "string \<Rightarrow> string" where
  "toUpperCase s = map upper_char s"

definition toLowerCase :: "string \<Rightarrow> string" where
  "toLowerCase s = map lower_char s"

definition trim :: "string \<Rightarrow> string" where
  "trim s = rev (dropWhile is_space (rev (dropWhile is_space s)))"

subsection \<open>Regular expressions\<close>

text \<open>
  The fragment of JavaScript regular expressions that the two ticker patterns use:
  the class \<^verbatim>\<open>[A-Z]\<close>, a literal character, sequence, \<^verbatim>\<open>r?\<close> and \<^verbatim>\<open>r{lo,hi}\<close>.
  \<open>rx_rest r s\<close> lists what is left of \<open>s\<close> after each way of matching a prefix of
  it against \<open>r\<close>, in the order a backtracking matcher tries them (greedy first).
\<close>

datatype rx = Upper | Lit char | Seq rx rx | Opt rx | Rep nat nat rx

fun rx_weight :: "rx \<Rightarrow> nat" where
  "rx_weight Upper = 1"
| "rx_weight (Lit c) = 1"
| "rx_weight (Seq a b) = rx_weight a + rx_weight b + 1"
| "rx_weight (Opt a) = rx_weight a + 1"
| "rx_weight (Rep lo hi a) = (hi + 1) * (rx_weight a + 1)"

function rx_rest :: "rx \<Rightarrow> string \<Rightarrow> string list" where
  "rx_rest Upper s = (case s of [] \<Rightarrow> [] | c # cs \<Rightarrow> if is_upper c then [cs] else [])"
| "rx_rest (Lit d) s = (case s of [] \<Rightarrow> [] | c # cs \<Rightarrow> if c = d then [cs] else [])"
| "rx_rest (Seq a b) s = concat (map (rx_rest b) (rx_rest a s))"
| "rx_rest (Opt a) s = rx_rest a s @ [s]"
| "rx_rest (Rep lo 0 a) s = (if lo = 0 then [s] else [])"
| "rx_rest (Rep lo (Suc hi) a) s =
     concat (map (rx_rest (Rep (lo - 1) hi a)) (rx_rest a s)) @ (if lo = 0 then [s] else [])"
  by pat_completeness auto
termination
  by (relation "measure (\<lambda>(r, s). rx_weight r)") auto

text \<open>\<^verbatim>\<open>/^r$/.test(s)\<close>: some way of matching consumes all of \<open>s\<close>.\<close>

definition rx_test :: "rx \<Rightarrow> string \<Rightarrow> bool" where
  "rx_test r s = ([] \<in> set (rx_rest r s))"

subsection \<open>stringUtils.js\<close>

text \<open>\<^verbatim>\<open>/^[A-Z]{1,5}(?:\.[A-Z]{1,2})?$/\<close>\<close>

definition validTickerPattern :: rx where
  "validTickerPattern = Seq (Rep 1 5 Upper) (Opt (Seq (Lit CHR ''.'') (Rep 1 2 Upper)))"

definition isValidTickerFormat :: "string \<Rightarrow> bool" where
  "isValidTickerFormat ticker = rx_test validTickerPattern ticker"

subsection \<open>tickerResolution.js: ticker detection\<close>

text \<open>\<^verbatim>\<open>/^[A-Z]{1,5}(\.?[A-Z]{1,2})?$/\<close>: here the dot is itself optional.\<close>

definition tickerPattern :: rx where
  "tickerPattern = Seq (Rep 1 5 Upper) (Opt (Seq (Opt (Lit CHR ''.'')) (Rep 1 2 Upper)))"

definition isTickerSymbol :: "string \<Rightarrow> bool" where
  "isTickerSymbol input = rx_test tickerPattern input"


subsection \<open>stringUtils.js: edit distance and similarity\<close>

text \<open>
  \<^verbatim>\<open>levenshteinDistance\<close> allocates a matrix of \<open>len2 + 1\<close> rows of \<open>len1 + 1\<close> zeros,
  writes the first row and the first column, and fills the rest row by row. Each
  \<^verbatim>\<open>for\<close> loop is a \<open>fold\<close> over its index range; \<open>m[j := (m ! j)[i := v]]\<close>
  is the assignment \<^verbatim>\<open>matrix[j][i] = v\<close>.
\<close>

definition fill_cell :: "string \<Rightarrow> string \<Rightarrow> nat \<Rightarrow> nat \<Rightarrow> nat list list \<Rightarrow> nat list list" where
  "fill_cell str1 str2 j i m =
     (let cost = (if str1 ! (i - 1) = str2 ! (j - 1) then 0 else 1 :: nat)
      in m[j := (m ! j)[i := min (min (m ! j ! (i - 1) + 1) (m ! (j - 1) ! i + 1))
                                  (m ! (j - 1) ! (i - 1) + cost)]])"

definition levenshteinDistance :: "string \<Rightarrow> string \<Rightarrow> nat" where
  "levenshteinDistance str1 str2 =
     (let len1 = length str1;
          len2 = length str2;
          matrix0 = replicate (len2 + 1) (replicate (len1 + 1) (0 :: nat));
          matrix1 = fold (\<lambda>i m. m[0 := (m ! 0)[i := i]]) [0 ..< len1 + 1] matrix0;
          matrix2 = fold (\<lambda>j m. m[j := (m ! j)[0 := j]]) [0 ..< len2 + 1] matrix1;
          matrix3 = fold (\<lambda>j m. fold (fill_cell str1 str2 j) [1 ..< len1 + 1] m)
                      [1 ..< len2 + 1] matrix2
      in matrix3 ! len2 ! len1)"

text \<open>
  \<^verbatim>\<open>distance / maxLen\<close> on JavaScript numbers. A zero divisor gives no finite number
  (\<^verbatim>\<open>0 / 0\<close> is NaN): that is \<open>None\<close>. Every comparison with NaN, and with
  \<^verbatim>\<open>undefined\<close>, is false.
\<close>

definition js_div :: "nat \<Rightarrow> nat \<Rightarrow> rat option" where
  "js_div a b = (if b = 0 then None else Some (of_nat a / of_nat b))"

definition js_ge :: "rat option \<Rightarrow> rat \<Rightarrow> bool" where
  "js_ge x t = (case x of None \<Rightarrow> False | Some v \<Rightarrow> t \<le> v)"

definition js_gt :: "rat option \<Rightarrow> rat \<Rightarrow> bool" where
  "js_gt x t = (case x of None \<Rightarrow> False | Some v \<Rightarrow> t < v)"

definition calculateSimilarity :: "string \<Rightarrow> string \<Rightarrow> rat option" where
  "calculateSimilarity str1 str2 =
     (let distance = levenshteinDistance str1 str2;
          maxLen = max (length str1) (length str2)
      in map_option (\<lambda>q. 1 - q) (js_div distance maxLen))"

subsection \<open>stringUtils.js: normalisation\<close>

text \<open>The class \<^verbatim>\<open>[.,&'"\-()]\<close>.\<close>

definition punctuation :: "char list" where
  "punctuation = [CHR ''.'', CHR '','', CHR ''&'', CHR 0x27, CHR 0x22, CHR ''-'', CHR ''('', CHR '')'']"

text \<open>\<^verbatim>\<open>.replace(/\s+/g, ' ')\<close>: each maximal run of white space becomes one space.\<close>

function collapse_spaces :: "string \<Rightarrow> string" where
  "collapse_spaces [] = []"
| "collapse_spaces (c # cs) =
     (if is_space c then CHR '' '' # collapse_spaces (dropWhile is_space cs)
      else c # collapse_spaces cs)"
  by pat_completeness auto
termination
  by (relation "measure length") (auto simp: less_Suc_eq_le length_dropWhile_le)

definition normalizeString :: "string \<Rightarrow> string" where
  "normalizeString input =
     trim (filter (\<lambda>c. \<not> is_space c)
       (collapse_spaces
         (filter (\<lambda>c. c \<notin> set punctuation)
           (toLowerCase (trim input)))))"

text \<open>
  A value a caller can pass where a string is expected. \<^verbatim>\<open>normalizeString\<close> starts
  with \<^verbatim>\<open>if (typeof input !== 'string') return ''\<close>: \<open>normalizeString\<close> above is
  what it does to a string, \<open>normalizeInput\<close> is the function on any value.
\<close>

datatype js_value =
  JS_string string
| JS_undefined
| JS_null
| JS_boolean bool
| JS_number rat
| JS_object

definition normalizeInput :: "js_value \<Rightarrow> string" where
  "normalizeInput input = (case input of JS_string s \<Rightarrow> normalizeString s | _ \<Rightarrow> [])"

text \<open>
  \<^verbatim>\<open>input.trim()\<close>: only a string has the method. On \<^verbatim>\<open>undefined\<close> and \<^verbatim>\<open>null\<close>
  the property read throws, on any other value the call of \<^verbatim>\<open>undefined\<close> throws;
  both are a \<^verbatim>\<open>TypeError\<close>. (\<open>JS_object\<close> stands for the objects and arrays of a
  JSON body, which have no \<^verbatim>\<open>trim\<close>.)
\<close>

datatype js_exn = TypeError | SyntaxError | NetworkError

definition trim_method :: "js_value \<Rightarrow> js_exn + string" where
  "trim_method input = (case input of JS_string s \<Rightarrow> Inr (trim s) | _ \<Rightarrow> Inl TypeError)"

section \<open>tickerResolution.js\<close>

subsection \<open>The local mapping table\<close>

text \<open>
  \<^verbatim>\<open>localTickerMapping\<close> is an object used as a dictionary; \<^verbatim>\<open>Object.entries\<close> walks
  it in insertion order, so it is an association list. The literal in the source
  writes the three \<^verbatim>\<open>nvidia\<close> keys twice with the same value; a repeated key keeps
  its first position. \<^verbatim>\<open>addLocalMapping\<close> extends the table at run time, so the
  functions below take the table as an argument: the list of the object's own
  properties, none of them an array index (those would be walked first).
\<close>

record tickerInfo =
  info_ticker :: string
  info_exchange :: string
  info_confidence :: rat

type_synonym catalog = "(string \<times> tickerInfo) list"

definition localTickerMapping :: catalog where
  "localTickerMapping = [
    (''apple'', \<lparr>info_ticker = ''AAPL'', info_exchange = ''NASDAQ'', info_confidence = 99 / 100\<rparr>),
    (''apple inc'', \<lparr>info_ticker = ''AAPL'', info_exchange = ''NASDAQ'', info_confidence = 99 / 100\<rparr>),
    (''apple corporation'', \<lparr>info_ticker = ''AAPL'', info_exchange = ''NASDAQ'', info_confidence = 99 / 100\<rparr>),
    (''microsoft'', \<lparr>info_ticker = ''MSFT'', info_exchange = ''NASDAQ'', info_confidence = 99 / 100\<rparr>),
    (''microsoft corporation'', \<lparr>info_ticker = ''MSFT'', info_exchange = ''NASDAQ'', info_confidence = 99 / 100\<rparr>),
    (''msft'', \<lparr>info_ticker = ''MSFT'', info_exchange = ''NASDAQ'', info_confidence = 99 / 100\<rparr>),
    (''nvidia'', \<lparr>info_ticker = ''NVDA'', info_exchange = ''NASDAQ'', info_confidence = 99 / 100\<rparr>),
    (''nvidia corporation'', \<lparr>info_ticker = ''NVDA'', info_exchange = ''NASDAQ'', info_confidence = 99 / 100\<rparr>),
    (''nvda'', \<lparr>info_ticker = ''NVDA'', info_exchange = ''NASDAQ'', info_confidence = 99 / 100\<rparr>),
    (''google'', \<lparr>info_ticker = ''GOOGL'', info_exchange = ''NASDAQ'', info_confidence = 95 / 100\<rparr>),
    (''alphabet'', \<lparr>info_ticker = ''GOOGL'', info_exchange = ''NASDAQ'', info_confidence = 99 / 100\<rparr>),
    (''alphabet inc'', \<lparr>info_ticker = ''GOOGL'', info_exchange = ''NASDAQ'', info_confidence = 99 / 100\<rparr>),
    (''googl'', \<lparr>info_ticker = ''GOOGL'', info_exchange = ''NASDAQ'', info_confidence = 99 / 100\<rparr>),
    (''tesla'', \<lparr>info_ticker = ''TSLA'', info_exchange = ''NASDAQ'', info_confidence = 99 / 100\<rparr>),
    (''tesla inc'', \<lparr>info_ticker = ''TSLA'', info_exchange = ''NASDAQ'', info_confidence = 99 / 100\<rparr>),
    (''tsla'', \<lparr>info_ticker = ''TSLA'', info_exchange = ''NASDAQ'', info_confidence = 99 / 100\<rparr>),
    (''amazon'', \<lparr>info_ticker = ''AMZN'', info_exchange = ''NASDAQ'', info_confidence = 99 / 100\<rparr>),
    (''amazon.com'', \<lparr>info_ticker = ''AMZN'', info_exchange = ''NASDAQ'', info_confidence = 99 / 100\<rparr>),
    (''amzn'', \<lparr>info_ticker = ''AMZN'', info_exchange = ''NASDAQ'', info_confidence = 99 / 100\<rparr>),
    (''facebook'', \<lparr>info_ticker = ''META'', info_exchange = ''NASDAQ'', info_confidence = 95 / 100\<rparr>),
    (''meta'', \<lparr>info_ticker = ''META'', info_exchange = ''NASDAQ'', info_confidence = 99 / 100\<rparr>),
    (''meta platforms'', \<lparr>info_ticker = ''META'', info_exchange = ''NASDAQ'', info_confidence = 99 / 100\<rparr>),
    (''jpmorgan'', \<lparr>info_ticker = ''JPM'', info_exchange = ''NYSE'', info_confidence = 95 / 100\<rparr>),
    (''jpmorgan chase'', \<lparr>info_ticker = ''JPM'', info_exchange = ''NYSE'', info_confidence = 99 / 100\<rparr>),
    (''jpm'', \<lparr>info_ticker = ''JPM'', info_exchange = ''NYSE'', info_confidence = 99 / 100\<rparr>),
    (''berkshire'', \<lparr>info_ticker = ''BRK.B'', info_exchange = ''NYSE'', info_confidence = 95 / 100\<rparr>),
    (''berkshire hathaway'', \<lparr>info_ticker = ''BRK.B'', info_exchange = ''NYSE'', info_confidence = 99 / 100\<rparr>),
    (''brk'', \<lparr>info_ticker = ''BRK.B'', info_exchange = ''NYSE'', info_confidence = 95 / 100\<rparr>),
    (''visa'', \<lparr>info_ticker = ''V'', info_exchange = ''NYSE'', info_confidence = 99 / 100\<rparr>),
    (''netflix'', \<lparr>info_ticker = ''NFLX'', info_exchange = ''NASDAQ'', info_confidence = 99 / 100\<rparr>),
    (''netflix inc'', \<lparr>info_ticker = ''NFLX'', info_exchange = ''NASDAQ'', info_confidence = 99 / 100\<rparr>),
    (''nflx'', \<lparr>info_ticker = ''NFLX'', info_exchange = ''NASDAQ'', info_confidence = 99 / 100\<rparr>),
    (''intel'', \<lparr>info_ticker = ''INTC'', info_exchange = ''NASDAQ'', info_confidence = 99 / 100\<rparr>),
    (''intel corporation'', \<lparr>info_ticker = ''INTC'', info_exchange = ''NASDAQ'', info_confidence = 99 / 100\<rparr>),
    (''intc'', \<lparr>info_ticker = ''INTC'', info_exchange = ''NASDAQ'', info_confidence = 99 / 100\<rparr>),
    (''amd'', \<lparr>info_ticker = ''AMD'', info_exchange = ''NASDAQ'', info_confidence = 99 / 100\<rparr>),
    (''advanced micro devices'', \<lparr>info_ticker = ''AMD'', info_exchange = ''NASDAQ'', info_confidence = 99 / 100\<rparr>),
    (''oracle'', \<lparr>info_ticker = ''ORCL'', info_exchange = ''NYSE'', info_confidence = 99 / 100\<rparr>),
    (''oracle corporation'', \<lparr>info_ticker = ''ORCL'', info_exchange = ''NYSE'', info_confidence = 99 / 100\<rparr>),
    (''orcl'', \<lparr>info_ticker = ''ORCL'', info_exchange = ''NYSE'', info_confidence = 99 / 100\<rparr>),
    (''salesforce'', \<lparr>info_ticker = ''CRM'', info_exchange = ''NYSE'', info_confidence = 99 / 100\<rparr>),
    (''salesforce inc'', \<lparr>info_ticker = ''CRM'', info_exchange = ''NYSE'', info_confidence = 99 / 100\<rparr>),
    (''crm'', \<lparr>info_ticker = ''CRM'', info_exchange = ''NYSE'', info_confidence = 99 / 100\<rparr>),
    (''adobe'', \<lparr>info_ticker = ''ADBE'', info_exchange = ''NASDAQ'', info_confidence = 99 / 100\<rparr>),
    (''adobe systems'', \<lparr>info_ticker = ''ADBE'', info_exchange = ''NASDAQ'', info_confidence = 99 / 100\<rparr>),
    (''adbe'', \<lparr>info_ticker = ''ADBE'', info_exchange = ''NASDAQ'', info_confidence = 99 / 100\<rparr>),
    (''accenture'', \<lparr>info_ticker = ''ACN'', info_exchange = ''NYSE'', info_confidence = 99 / 100\<rparr>),
    (''acn'', \<lparr>info_ticker = ''ACN'', info_exchange = ''NYSE'', info_confidence = 99 / 100\<rparr>),
    (''servicenow'', \<lparr>info_ticker = ''NOW'', info_exchange = ''NYSE'', info_confidence = 99 / 100\<rparr>),
    (''now'', \<lparr>info_ticker = ''NOW'', info_exchange = ''NYSE'', info_confidence = 99 / 100\<rparr>),
    (''datadog'', \<lparr>info_ticker = ''DDOG'', info_exchange = ''NASDAQ'', info_confidence = 99 / 100\<rparr>),
    (''ddog'', \<lparr>info_ticker = ''DDOG'', info_exchange = ''NASDAQ'', info_confidence = 99 / 100\<rparr>),
    (''crowdstrike'', \<lparr>info_ticker = ''CRWD'', info_exchange = ''NASDAQ'', info_confidence = 99 / 100\<rparr>),
    (''crwd'', \<lparr>info_ticker = ''CRWD'', info_exchange = ''NASDAQ'', info_confidence = 99 / 100\<rparr>),
    (''snowflake'', \<lparr>info_ticker = ''SNOW'', info_exchange = ''NYSE'', info_confidence = 99 / 100\<rparr>),
    (''snow'', \<lparr>info_ticker = ''SNOW'', info_exchange = ''NYSE'', info_confidence = 99 / 100\<rparr>),
    (''paypal'', \<lparr>info_ticker = ''PYPL'', info_exchange = ''NASDAQ'', info_confidence = 99 / 100\<rparr>),
    (''pypl'', \<lparr>info_ticker = ''PYPL'', info_exchange = ''NASDAQ'', info_confidence = 99 / 100\<rparr>),
    (''square'', \<lparr>info_ticker = ''SQ'', info_exchange = ''NYSE'', info_confidence = 95 / 100\<rparr>),
    (''block inc'', \<lparr>info_ticker = ''SQ'', info_exchange = ''NYSE'', info_confidence = 99 / 100\<rparr>),
    (''sq'', \<lparr>info_ticker = ''SQ'', info_exchange = ''NYSE'', info_confidence = 99 / 100\<rparr>),
    (''uber'', \<lparr>info_ticker = ''UBER'', info_exchange = ''NYSE'', info_confidence = 99 / 100\<rparr>),
    (''uber technologies'', \<lparr>info_ticker = ''UBER'', info_exchange = ''NYSE'', info_confidence = 99 / 100\<rparr>),
    (''lyft'', \<lparr>info_ticker = ''LYFT'', info_exchange = ''NASDAQ'', info_confidence = 99 / 100\<rparr>),
    (''airbnb'', \<lparr>info_ticker = ''ABNB'', info_exchange = ''NASDAQ'', info_confidence = 99 / 100\<rparr>),
    (''abnb'', \<lparr>info_ticker = ''ABNB'', info_exchange = ''NASDAQ'', info_confidence = 99 / 100\<rparr>),
    (''doordash'', \<lparr>info_ticker = ''DASH'', info_exchange = ''NYSE'', info_confidence = 99 / 100\<rparr>),
    (''dash'', \<lparr>info_ticker = ''DASH'', info_exchange = ''NYSE'', info_confidence = 99 / 100\<rparr>),
    (''shopify'', \<lparr>info_ticker = ''SHOP'', info_exchange = ''NYSE'', info_confidence = 99 / 100\<rparr>),
    (''shop'', \<lparr>info_ticker = ''SHOP'', info_exchange = ''NYSE'', info_confidence = 99 / 100\<rparr>),
    (''spotify'', \<lparr>info_ticker = ''SPOT'', info_exchange = ''NYSE'', info_confidence = 99 / 100\<rparr>),
    (''spot'', \<lparr>info_ticker = ''SPOT'', info_exchange = ''NYSE'', info_confidence = 99 / 100\<rparr>)
  ]"

subsection \<open>Results and telemetry\<close>

record telemetryEvent =
  ev_type :: string
  ev_input :: string
  ev_timestamp :: int
  ev_ticker :: "string option"
  ev_confidence :: "rat option"
  ev_resolvedFrom :: "string option"
  ev_matches :: "nat option"
  ev_candidates :: "(string option \<times> rat option) list option"

text \<open>
  One record for every object the resolver returns as a single resolution. A field
  the object does not have, or has as \<^verbatim>\<open>null\<close> or \<^verbatim>\<open>undefined\<close>, is \<open>None\<close>;
  \<open>companyName\<close> is set by the OpenAI service only.
\<close>

record resolution =
  ticker :: "string option"
  exchange :: "string option"
  name :: "string option"
  companyName :: "string option"
  confidence :: "rat option"
  resolvedFrom :: string
  telemetry :: "telemetryEvent option"

text \<open>The other shape: \<^verbatim>\<open>{matches, confidence: 'ambiguous', resolvedFrom, telemetry}\<close>.\<close>

datatype outcome =
  Resolved resolution
| Ambiguous "resolution list" string telemetryEvent

text \<open>Truthiness of a value that is a string, \<^verbatim>\<open>null\<close> or \<^verbatim>\<open>undefined\<close>.\<close>

definition truthy :: "string option \<Rightarrow> bool" where
  "truthy v = (case v of None \<Rightarrow> False | Some s \<Rightarrow> s \<noteq> [])"

subsection \<open>The resolution cache\<close>

text \<open>
  \<^verbatim>\<open>resolutionCache\<close> is a \<^verbatim>\<open>Map\<close>: keys are unique and iteration follows insertion
  order; \<^verbatim>\<open>set\<close> on a present key keeps its position. The clock \<^verbatim>\<open>Date.now()\<close> is
  the argument \<open>now\<close>, in milliseconds.
\<close>

record cache_entry =
  data :: resolution
  timestamp :: int

type_synonym cache = "(string \<times> cache_entry) list"

definition CACHE_TTL_MS :: int where
  "CACHE_TTL_MS = 24 * 60 * 60 * 1000"

fun map_set :: "'k \<Rightarrow> 'v \<Rightarrow> ('k \<times> 'v) list \<Rightarrow> ('k \<times> 'v) list" where
  "map_set k v [] = [(k, v)]"
| "map_set k v (p # ps) = (if fst p = k then (k, v) # ps else p # map_set k v ps)"

definition map_delete :: "'k \<Rightarrow> ('k \<times> 'v) list \<Rightarrow> ('k \<times> 'v) list" where
  "map_delete k ps = filter (\<lambda>p. fst p \<noteq> k) ps"

definition getCachedResolution :: "int \<Rightarrow> string \<Rightarrow> cache \<Rightarrow> resolution option \<times> cache" where
  "getCachedResolution now normalizedInput c =
     (case map_of c normalizedInput of
        Some cached \<Rightarrow>
          if now - timestamp cached < CACHE_TTL_MS then (Some (data cached), c)
          else (None, map_delete normalizedInput c)
      | None \<Rightarrow> (None, c))"

definition setCacheResolution :: "int \<Rightarrow> string \<Rightarrow> resolution \<Rightarrow> cache \<Rightarrow> cache" where
  "setCacheResolution now normalizedInput r c =
     map_set normalizedInput \<lparr>data = r, timestamp = now\<rparr> c"

definition clearResolutionCache :: "string option \<Rightarrow> cache \<Rightarrow> cache" where
  "clearResolutionCache normalizedInput c =
     (case normalizedInput of None \<Rightarrow> [] | Some k \<Rightarrow> map_delete k c)"

record stats_entry =
  st_input :: string
  st_ticker :: "string option"
  st_age :: int

record cache_stats =
  st_size :: nat
  st_entries :: "stats_entry list"

text \<open>\<^verbatim>\<open>getCacheStats\<close> returns the statistics and the cache it leaves behind.\<close>

definition getCacheStats :: "int \<Rightarrow> cache \<Rightarrow> cache_stats \<times> cache" where
  "getCacheStats now c =
     (\<lparr>st_size = length c,
       st_entries = map (\<lambda>(key, v). \<lparr>st_input = key, st_ticker = ticker (data v),
                                      st_age = now - timestamp v\<rparr>) c\<rparr>,
      c)"

subsection \<open>Local mapping and fuzzy matching\<close>

text \<open>
  \<^verbatim>\<open>localTickerMapping[normalizedInput]\<close> reads a property of a plain object: an own
  property if there is one, else what the object inherits from \<^verbatim>\<open>Object.prototype\<close>
  under that name. The inherited members are functions (and, for \<^verbatim>\<open>__proto__\<close>, the
  prototype itself): truthy values without \<^verbatim>\<open>ticker\<close>, \<^verbatim>\<open>exchange\<close> or
  \<^verbatim>\<open>confidence\<close>. \<open>Some None\<close> is such a member.
\<close>

definition object_prototype_names :: "string list" where
  "object_prototype_names =
     [''constructor'', ''__defineGetter__'', ''__defineSetter__'', ''hasOwnProperty'',
      ''__lookupGetter__'', ''__lookupSetter__'', ''isPrototypeOf'', ''propertyIsEnumerable'',
      ''toString'', ''valueOf'', ''__proto__'', ''toLocaleString'']"

definition get_property :: "catalog \<Rightarrow> string \<Rightarrow> tickerInfo option option" where
  "get_property table key =
     (case map_of table key of
        Some info \<Rightarrow> Some (Some info)
      | None \<Rightarrow> if key \<in> set object_prototype_names then Some None else None)"

definition tryLocalMapping :: "catalog \<Rightarrow> string \<Rightarrow> string option \<Rightarrow> resolution option" where
  "tryLocalMapping table normalizedInput exch =
     (case get_property table normalizedInput of
        Some result \<Rightarrow>
          if truthy exch \<and> map_option info_exchange result \<noteq> exch then None
          else Some \<lparr>ticker = map_option info_ticker result,
                     exchange = map_option info_exchange result,
                     name = Some normalizedInput,
                     companyName = None,
                     confidence = map_option info_confidence result,
                     resolvedFrom = ''local_cache'',
                     telemetry = None\<rparr>
      | None \<Rightarrow> None)"

text \<open>\<^verbatim>\<open>Math.round(similarity * 100) / 100\<close>; \<^verbatim>\<open>Math.round\<close> rounds halves up.\<close>

definition round2 :: "rat \<Rightarrow> rat" where
  "round2 x = of_int \<lfloor>x * 100 + 1 / 2\<rfloor> / 100"

text \<open>
  \<^verbatim>\<open>Array.prototype.sort\<close> with the comparator \<^verbatim>\<open>(a, b) => b.confidence - a.confidence\<close>:
  a stable sort, descending by confidence. The lists sorted are built by the adapters
  and the fuzzy matcher, whose candidates all carry a number; for a candidate
  without one the comparator yields NaN, which counts as 0.
\<close>

definition sort_by_confidence :: "resolution list \<Rightarrow> resolution list" where
  "sort_by_confidence rs =
     sort_key (\<lambda>r. case confidence r of Some q \<Rightarrow> - q | None \<Rightarrow> 0) rs"

definition fuzzy_similarity :: "string \<Rightarrow> string \<Rightarrow> rat option" where
  "fuzzy_similarity normalizedInput company =
     (let distance = levenshteinDistance normalizedInput company;
          maxLen = max (length normalizedInput) (length company)
      in map_option (\<lambda>q. 1 - q) (js_div distance maxLen))"

definition fuzzy_candidate :: "string \<Rightarrow> string \<times> tickerInfo \<Rightarrow> resolution" where
  "fuzzy_candidate normalizedInput e =
     \<lparr>ticker = Some (info_ticker (snd e)),
      exchange = Some (info_exchange (snd e)),
      name = Some (fst e),
      companyName = None,
      confidence = map_option round2 (fuzzy_similarity normalizedInput (fst e)),
      resolvedFrom = ''fuzzy_match'',
      telemetry = None\<rparr>"

definition fuzzyMatchLocalTickers :: "catalog \<Rightarrow> string \<Rightarrow> rat \<Rightarrow> resolution list" where
  "fuzzyMatchLocalTickers table normalizedInput threshold =
     (let matches = map (fuzzy_candidate normalizedInput)
            (filter (\<lambda>e. js_ge (fuzzy_similarity normalizedInput (fst e)) threshold) table)
      in sort_by_confidence matches)"


subsection \<open>Exceptions\<close>

text \<open>
  A JavaScript computation that can throw returns \<open>Inl\<close> the exception or \<open>Inr\<close>
  its value. \<open>try_catch\<close> is \<^verbatim>\<open>try { body } catch (error) { handler }\<close>.
\<close>

definition then_do :: "js_exn + 'a \<Rightarrow> ('a \<Rightarrow> js_exn + 'b) \<Rightarrow> js_exn + 'b" where
  "then_do m f = (case m of Inl e \<Rightarrow> Inl e | Inr v \<Rightarrow> f v)"

definition try_catch :: "js_exn + 'a \<Rightarrow> (js_exn \<Rightarrow> js_exn + 'a) \<Rightarrow> js_exn + 'a" where
  "try_catch body handler = (case body of Inl e \<Rightarrow> handler e | Inr v \<Rightarrow> Inr v)"

fun map_throwing :: "('a \<Rightarrow> js_exn + 'b) \<Rightarrow> 'a list \<Rightarrow> js_exn + 'b list" where
  "map_throwing f [] = Inr []"
| "map_throwing f (x # xs) =
     then_do (f x) (\<lambda>y. then_do (map_throwing f xs) (\<lambda>ys. Inr (y # ys)))"

subsection \<open>The providers\<close>

text \<open>
  What the network does is a parameter of the model. \<open>Fetch_rejects\<close>: \<^verbatim>\<open>fetch\<close>
  throws; \<open>Not_ok\<close>: \<^verbatim>\<open>response.ok\<close> is false; \<open>Bad_json\<close>: \<^verbatim>\<open>response.json()\<close>
  throws; \<open>Json d\<close>: the parsed body.
\<close>

datatype 'a response = Fetch_rejects | Not_ok | Bad_json | Json 'a

text \<open>
  A search body. \<open>Not_an_object\<close>: the body is \<^verbatim>\<open>null\<close>, reading a property of it
  throws. \<open>No_results\<close>: no result array. \<open>Items xs\<close>: the result array; an element
  \<open>None\<close> is a \<^verbatim>\<open>null\<close> element, reading a property of it throws.
\<close>

datatype 'a search_body = Not_an_object | No_results | Items "'a option list"

record finnhub_item =
  fh_symbol :: string
  fh_type :: string
  fh_mic :: "string option"
  fh_description :: "string option"

record iex_item =
  iex_symbol :: string
  iex_exchange :: "string option"
  iex_name :: "string option"

text \<open>
  The chat completion. \<open>No_message\<close>: \<^verbatim>\<open>choices[0].message\<close> is missing;
  \<open>Content_not_string\<close>: \<^verbatim>\<open>content.trim()\<close> throws; \<open>Content_unparsable\<close>:
  \<^verbatim>\<open>JSON.parse\<close> throws; \<open>Content_null\<close>: the content parses to \<^verbatim>\<open>null\<close>;
  \<open>Content_ticker_not_string\<close>: a truthy ticker without \<^verbatim>\<open>toUpperCase\<close>.
\<close>

record ai_answer =
  ai_ticker :: "string option"
  ai_companyName :: "string option"
  ai_confidence :: "rat option"

datatype openai_body =
  No_message
| Content_not_string
| Content_unparsable
| Content_null
| Content_ticker_not_string
| Content ai_answer

record providers =
  FINNHUB_API_KEY :: "string option"
  IEX_CLOUD_API_KEY :: "string option"
  OPENAI_API_KEY :: "string option"
  finnhub :: "string \<Rightarrow> finnhub_item search_body response"
  iex_cloud :: "string \<Rightarrow> iex_item search_body response"
  openai :: "string \<Rightarrow> openai_body response"

definition or_else :: "string option \<Rightarrow> string \<Rightarrow> string" where
  "or_else v d = (if truthy v then the v else d)"

definition finnhub_candidate :: "finnhub_item option \<Rightarrow> js_exn + resolution" where
  "finnhub_candidate item =
     (case item of
        None \<Rightarrow> Inl TypeError
      | Some it \<Rightarrow> Inr
          \<lparr>ticker = Some (fh_symbol it),
           exchange = (if fh_type it = ''Common Stock'' then Some (or_else (fh_mic it) ''NASDAQ'')
                       else fh_mic it),
           name = Some (or_else (fh_description it) (fh_symbol it)),
           companyName = None,
           confidence = Some (85 / 100),
           resolvedFrom = ''finnhub_api'',
           telemetry = None\<rparr>)"

definition tryFinnhubLookup :: "providers \<Rightarrow> string \<Rightarrow> js_exn + resolution list option" where
  "tryFinnhubLookup w input =
     (if \<not> truthy (FINNHUB_API_KEY w) then Inr None
      else try_catch
        (case finnhub w input of
           Fetch_rejects \<Rightarrow> Inl NetworkError
         | Not_ok \<Rightarrow> Inr None
         | Bad_json \<Rightarrow> Inl SyntaxError
         | Json Not_an_object \<Rightarrow> Inl TypeError
         | Json No_results \<Rightarrow> Inr None
         | Json (Items result) \<Rightarrow>
             if length result > 0
             then then_do (map_throwing finnhub_candidate result) (\<lambda>results. Inr (Some results))
             else Inr None)
        (\<lambda>error. Inr None))"

definition iex_candidate :: "iex_item option \<Rightarrow> js_exn + resolution" where
  "iex_candidate item =
     (case item of
        None \<Rightarrow> Inl TypeError
      | Some it \<Rightarrow> Inr
          \<lparr>ticker = Some (iex_symbol it),
           exchange = Some (or_else (iex_exchange it) ''UNKNOWN''),
           name = Some (or_else (iex_name it) (iex_symbol it)),
           companyName = None,
           confidence = Some (88 / 100),
           resolvedFrom = ''iex_cloud_api'',
           telemetry = None\<rparr>)"

text \<open>Here a body that is not an array fails \<^verbatim>\<open>Array.isArray\<close> and nothing throws.\<close>

definition tryIexCloudLookup :: "providers \<Rightarrow> string \<Rightarrow> js_exn + resolution list option" where
  "tryIexCloudLookup w input =
     (if \<not> truthy (IEX_CLOUD_API_KEY w) then Inr None
      else try_catch
        (case iex_cloud w input of
           Fetch_rejects \<Rightarrow> Inl NetworkError
         | Not_ok \<Rightarrow> Inr None
         | Bad_json \<Rightarrow> Inl SyntaxError
         | Json Not_an_object \<Rightarrow> Inr None
         | Json No_results \<Rightarrow> Inr None
         | Json (Items result) \<Rightarrow>
             if length result > 0
             then then_do (map_throwing iex_candidate result) (\<lambda>results. Inr (Some results))
             else Inr None)
        (\<lambda>error. Inr None))"

text \<open>\<^verbatim>\<open>resolveTickerWithOpenAI\<close> of \<^verbatim>\<open>openaiService.js\<close>.\<close>

definition resolveTickerWithOpenAI :: "providers \<Rightarrow> string \<Rightarrow> js_exn + resolution option" where
  "resolveTickerWithOpenAI w company =
     (if \<not> truthy (OPENAI_API_KEY w) then Inr None
      else try_catch
        (case openai w company of
           Fetch_rejects \<Rightarrow> Inl NetworkError
         | Not_ok \<Rightarrow> Inr None
         | Bad_json \<Rightarrow> Inl SyntaxError
         | Json No_message \<Rightarrow> Inr None
         | Json Content_not_string \<Rightarrow> Inl TypeError
         | Json Content_unparsable \<Rightarrow> Inl SyntaxError
         | Json Content_null \<Rightarrow> Inl TypeError
         | Json Content_ticker_not_string \<Rightarrow> Inl TypeError
         | Json (Content result) \<Rightarrow>
             if truthy (ai_ticker result) \<and> ai_ticker result \<noteq> Some ''null''
             then Inr (Some
               \<lparr>ticker = Some (toUpperCase (the (ai_ticker result))),
                exchange = None,
                name = None,
                companyName = Some (or_else (ai_companyName result) company),
                confidence = (case ai_confidence result of
                                None \<Rightarrow> Some (85 / 100)
                              | Some q \<Rightarrow> if q = 0 then Some (85 / 100) else Some q),
                resolvedFrom = ''openai'',
                telemetry = None\<rparr>)
             else Inr None)
        (\<lambda>error. Inr None))"

subsection \<open>The resolver\<close>

record options =
  opt_exchange :: "string option"
  opt_provider :: string
  opt_forceRefresh :: bool

text \<open>The defaults of the destructuring of \<^verbatim>\<open>options = {}\<close>.\<close>

definition default_options :: options where
  "default_options = \<lparr>opt_exchange = None, opt_provider = ''auto'', opt_forceRefresh = False\<rparr>"

definition attempt_event :: "string \<Rightarrow> int \<Rightarrow> telemetryEvent" where
  "attempt_event trimmedInput now =
     \<lparr>ev_type = ''ticker_resolution_attempt'', ev_input = trimmedInput, ev_timestamp = now,
      ev_ticker = None, ev_confidence = None, ev_resolvedFrom = None,
      ev_matches = None, ev_candidates = None\<rparr>"

definition candidate_summaries :: "resolution list \<Rightarrow> (string option \<times> rat option) list" where
  "candidate_summaries rs = map (\<lambda>r. (ticker r, confidence r)) (take 3 rs)"

text \<open>
  The steps of \<^verbatim>\<open>resolveTickerOrCompanyName\<close>, last first. Each takes the telemetry
  event built so far and the cache, and returns the outcome with the cache it leaves.
  An object stored by \<^verbatim>\<open>setCacheResolution\<close> is the object returned to the caller:
  where the source attaches the telemetry to it after storing it, the cache holds
  the object with the telemetry attached.
\<close>

definition not_found :: "telemetryEvent \<Rightarrow> string \<Rightarrow> cache \<Rightarrow> outcome \<times> cache" where
  "not_found ev trimmedInput c =
     (Resolved \<lparr>ticker = None, exchange = None, name = Some trimmedInput, companyName = None,
                confidence = Some 0, resolvedFrom = ''not_found'',
                telemetry = Some (ev\<lparr>ev_type := ''symbol_not_found''\<rparr>)\<rparr>,
      c)"

definition openai_step ::
  "providers \<Rightarrow> int \<Rightarrow> telemetryEvent \<Rightarrow> string \<Rightarrow> string \<Rightarrow> cache \<Rightarrow> js_exn + outcome \<times> cache" where
  "openai_step w now ev normalizedInput trimmedInput c =
     then_do
       (try_catch
          (then_do (resolveTickerWithOpenAI w trimmedInput)
             (\<lambda>aiResult. case aiResult of
                None \<Rightarrow> Inr None
              | Some r \<Rightarrow>
                  if truthy (ticker r)
                  then (let result = r\<lparr>telemetry := Some (ev\<lparr>ev_type := ''symbol_resolved'',
                                          ev_ticker := ticker r,
                                          ev_confidence := confidence r,
                                          ev_resolvedFrom := Some ''openai''\<rparr>)\<rparr>
                        in Inr (Some (Resolved result,
                                      setCacheResolution now normalizedInput result c)))
                  else Inr None))
          (\<lambda>error. Inr None))
       (\<lambda>found. case found of
          Some res \<Rightarrow> Inr res
        | None \<Rightarrow> Inr (not_found ev trimmedInput c))"

definition fuzzy_step ::
  "providers \<Rightarrow> catalog \<Rightarrow> int \<Rightarrow> telemetryEvent \<Rightarrow> string \<Rightarrow> string \<Rightarrow> cache
     \<Rightarrow> js_exn + outcome \<times> cache" where
  "fuzzy_step w table now ev normalizedInput trimmedInput c =
     (let fuzzyMatches = fuzzyMatchLocalTickers table normalizedInput (65 / 100)
      in if length fuzzyMatches > 0
         then (if length fuzzyMatches = 1 \<and> js_gt (confidence (hd fuzzyMatches)) (85 / 100)
               then (let r = hd fuzzyMatches;
                         result = r\<lparr>telemetry := Some (ev\<lparr>ev_type := ''symbol_resolved'',
                                          ev_ticker := ticker r,
                                          ev_confidence := confidence r,
                                          ev_resolvedFrom := Some ''fuzzy_match''\<rparr>)\<rparr>
                     in Inr (Resolved result, setCacheResolution now normalizedInput result c))
               else Inr (Ambiguous fuzzyMatches ''fuzzy_match''
                           (ev\<lparr>ev_type := ''symbol_ambiguous'',
                               ev_matches := Some (length fuzzyMatches),
                               ev_candidates := Some (candidate_summaries fuzzyMatches)\<rparr>),
                         c))
         else openai_step w now ev normalizedInput trimmedInput c)"

definition api_lookup :: "providers \<Rightarrow> string \<Rightarrow> string \<Rightarrow> js_exn + resolution list" where
  "api_lookup w provider trimmedInput =
     then_do
       (if provider = ''auto'' \<or> provider = ''finnhub''
        then then_do (tryFinnhubLookup w trimmedInput)
               (\<lambda>finnhubResults. Inr (case finnhubResults of None \<Rightarrow> [] | Some rs \<Rightarrow> rs))
        else Inr [])
       (\<lambda>apiResults.
          if length apiResults = 0 \<and> (provider = ''auto'' \<or> provider = ''iex'')
          then then_do (tryIexCloudLookup w trimmedInput)
                 (\<lambda>iexResults. Inr (case iexResults of None \<Rightarrow> apiResults | Some rs \<Rightarrow> rs))
          else Inr apiResults)"

definition filter_by_exchange :: "string option \<Rightarrow> resolution list \<Rightarrow> resolution list" where
  "filter_by_exchange exch apiResults =
     (if truthy exch \<and> length apiResults > 0
      then (let filtered = filter (\<lambda>r. exchange r = exch) apiResults
            in if length filtered > 0 then filtered else apiResults)
      else apiResults)"

definition api_step ::
  "providers \<Rightarrow> catalog \<Rightarrow> int \<Rightarrow> options \<Rightarrow> telemetryEvent \<Rightarrow> string \<Rightarrow> string \<Rightarrow> cache
     \<Rightarrow> js_exn + outcome \<times> cache" where
  "api_step w table now opts ev normalizedInput trimmedInput c =
     then_do (api_lookup w (opt_provider opts) trimmedInput)
       (\<lambda>found.
          let apiResults = filter_by_exchange (opt_exchange opts) found
          in if length apiResults > 0
             then (let sorted = sort_by_confidence apiResults;
                       topResult = hd sorted
                   in if length sorted = 1
                      then (let result = topResult\<lparr>telemetry :=
                                   Some (ev\<lparr>ev_type := ''symbol_resolved'',
                                            ev_ticker := ticker topResult,
                                            ev_confidence := confidence topResult,
                                            ev_resolvedFrom := Some (resolvedFrom topResult)\<rparr>)\<rparr>
                            in Inr (Resolved result,
                                    setCacheResolution now normalizedInput result c))
                      else Inr (Ambiguous sorted ''api_search''
                                  (ev\<lparr>ev_type := ''symbol_ambiguous'',
                                      ev_matches := Some (length sorted),
                                      ev_candidates := Some (candidate_summaries sorted)\<rparr>),
                                setCacheResolution now normalizedInput topResult c))
             else fuzzy_step w table now ev normalizedInput trimmedInput c)"

definition local_step ::
  "providers \<Rightarrow> catalog \<Rightarrow> int \<Rightarrow> options \<Rightarrow> telemetryEvent \<Rightarrow> string \<Rightarrow> string \<Rightarrow> cache
     \<Rightarrow> js_exn + outcome \<times> cache" where
  "local_step w table now opts ev normalizedInput trimmedInput c =
     (case tryLocalMapping table normalizedInput (opt_exchange opts) of
        Some localMatch \<Rightarrow>
          (let result = localMatch\<lparr>telemetry :=
                     Some (ev\<lparr>ev_type := ''symbol_resolved'',
                              ev_ticker := ticker localMatch,
                              ev_confidence := confidence localMatch,
                              ev_resolvedFrom := Some ''local_cache''\<rparr>)\<rparr>
           in Inr (Resolved result, setCacheResolution now normalizedInput result c))
      | None \<Rightarrow> api_step w table now opts ev normalizedInput trimmedInput c)"

text \<open>
  On a cache hit the stored object itself gets the new telemetry and is returned;
  its time stamp stays.
\<close>

definition cache_step ::
  "providers \<Rightarrow> catalog \<Rightarrow> int \<Rightarrow> options \<Rightarrow> telemetryEvent \<Rightarrow> string \<Rightarrow> string \<Rightarrow> cache
     \<Rightarrow> js_exn + outcome \<times> cache" where
  "cache_step w table now opts ev normalizedInput trimmedInput c =
     (if \<not> opt_forceRefresh opts
      then (case getCachedResolution now normalizedInput c of
              (Some cached, c') \<Rightarrow>
                (let result = cached\<lparr>telemetry :=
                       Some (ev\<lparr>ev_type := ''ticker_resolution_cache_hit'',
                                ev_ticker := ticker cached\<rparr>)\<rparr>
                 in Inr (Resolved result,
                         map (\<lambda>(k, e). if k = normalizedInput then (k, e\<lparr>data := result\<rparr>)
                                        else (k, e)) c'))
            | (None, c') \<Rightarrow> local_step w table now opts ev normalizedInput trimmedInput c')
      else local_step w table now opts ev normalizedInput trimmedInput c)"

text \<open>
  The function itself. Its first two statements are
  \<^verbatim>\<open>const normalizedInput = normalizeString(input); const trimmedInput = input.trim();\<close>
  and neither is inside a \<^verbatim>\<open>try\<close>.
\<close>

definition resolveTickerOrCompanyName ::
  "providers \<Rightarrow> catalog \<Rightarrow> int \<Rightarrow> js_value \<Rightarrow> options \<Rightarrow> cache \<Rightarrow> js_exn + outcome \<times> cache" where
  "resolveTickerOrCompanyName w table now input opts c =
     (let normalizedInput = normalizeInput input
      in then_do (trim_method input)
           (\<lambda>trimmedInput.
              let telemetryEvent = attempt_event trimmedInput now
              in if isTickerSymbol (toUpperCase trimmedInput)
                 then Inr (Resolved
                             \<lparr>ticker = Some (toUpperCase trimmedInput),
                              exchange = Some (or_else (opt_exchange opts) ''UNKNOWN''),
                              name = None,
                              companyName = None,
                              confidence = Some 1,
                              resolvedFrom = ''input_detection'',
                              telemetry = Some (telemetryEvent
                                \<lparr>ev_type := ''ticker_resolution_detected_ticker'',
                                 ev_ticker := Some (toUpperCase trimmedInput),
                                 ev_resolvedFrom := Some ''input_detection''\<rparr>)\<rparr>,
                           c)
                 else cache_step w table now opts telemetryEvent normalizedInput
                        trimmedInput c))"

text \<open>A process with no credential configured: every adapter is disabled.\<close>

definition no_providers :: providers where
  "no_providers =
     \<lparr>FINNHUB_API_KEY = None, IEX_CLOUD_API_KEY = None, OPENAI_API_KEY = None,
      finnhub = (\<lambda>q. Fetch_rejects), iex_cloud = (\<lambda>q. Fetch_rejects),
      openai = (\<lambda>q. Fetch_rejects)\<rparr>"


section \<open>Example states\<close>

text \<open>A resolution as the OpenAI step caches it, for the query \<^verbatim>\<open>3M\<close>.\<close>

definition sample_resolution :: resolution where
  "sample_resolution =
     \<lparr>ticker = Some ''MMM'', exchange = None, name = None, companyName = Some ''3M Company'',
      confidence = Some (95 / 100), resolvedFrom = ''openai'', telemetry = None\<rparr>"


text \<open>Finnhub answers every search with two common stocks; no other credential is set.\<close>

definition two_listings :: providers where
  "two_listings =
     \<lparr>FINNHUB_API_KEY = Some ''token'', IEX_CLOUD_API_KEY = None, OPENAI_API_KEY = None,
      finnhub = (\<lambda>q. Json (Items
        [Some \<lparr>fh_symbol = ''ACME'', fh_type = ''Common Stock'', fh_mic = Some ''XNYS'',
                fh_description = Some ''ACME CORP''\<rparr>,
         Some \<lparr>fh_symbol = ''ACMH'', fh_type = ''Common Stock'', fh_mic = Some ''XNAS'',
                fh_description = Some ''ACME HOLDINGS INC''\<rparr>])),
      iex_cloud = (\<lambda>q. Fetch_rejects),
      openai = (\<lambda>q. Fetch_rejects)\<rparr>"

text \<open>
  Only the OpenAI credential is set. The first provider knows the company under the
  query \<^verbatim>\<open>3M\<close> and under no other; the second answers every query with the same
  ticker. Neither names the company.
\<close>

definition openai_knows_3M :: providers where
  "openai_knows_3M =
     \<lparr>FINNHUB_API_KEY = None, IEX_CLOUD_API_KEY = None, OPENAI_API_KEY = Some ''token'',
      finnhub = (\<lambda>q. Fetch_rejects), iex_cloud = (\<lambda>q. Fetch_rejects),
      openai = (\<lambda>q. if q = ''3M''
                    then Json (Content \<lparr>ai_ticker = Some ''MMM'', ai_companyName = None,
                                         ai_confidence = Some (95 / 100)\<rparr>)
                    else Json (Content \<lparr>ai_ticker = None, ai_companyName = None,
                                         ai_confidence = Some 0\<rparr>))\<rparr>"

definition openai_always_MMM :: providers where
  "openai_always_MMM =
     \<lparr>FINNHUB_API_KEY = None, IEX_CLOUD_API_KEY = None, OPENAI_API_KEY = Some ''token'',
      finnhub = (\<lambda>q. Fetch_rejects), iex_cloud = (\<lambda>q. Fetch_rejects),
      openai = (\<lambda>q. Json (Content \<lparr>ai_ticker = Some ''MMM'', ai_companyName = None,
                                       ai_confidence = Some (95 / 100)\<rparr>))\<rparr>"

text \<open>
  What the OpenAI step returns and stores at time 0 for a query that the service
  answers with the ticker \<^verbatim>\<open>MMM\<close> and no company name.
\<close>

definition mmm_from_openai :: "string \<Rightarrow> resolution" where
  "mmm_from_openai query =
     \<lparr>ticker = Some ''MMM'', exchange = None, name = None, companyName = Some query,
      confidence = Some (95 / 100), resolvedFrom = ''openai'',
      telemetry = Some
        \<lparr>ev_type = ''symbol_resolved'', ev_input = query, ev_timestamp = 0,
         ev_ticker = Some ''MMM'', ev_confidence = Some (95 / 100),
         ev_resolvedFrom = Some ''openai'', ev_matches = None, ev_candidates = None\<rparr>\<rparr>"

definition acme_listing :: resolution where
  "acme_listing =
     \<lparr>ticker = Some ''ACME'', exchange = Some ''XNYS'', name = Some ''ACME CORP'',
      companyName = None, confidence = Some (85 / 100), resolvedFrom = ''finnhub_api'',
      telemetry = None\<rparr>"

definition acmh_listing :: resolution where
  "acmh_listing =
     \<lparr>ticker = Some ''ACMH'', exchange = Some ''XNAS'', name = Some ''ACME HOLDINGS INC'',
      companyName = None, confidence = Some (85 / 100), resolvedFrom = ''finnhub_api'',
      telemetry = None\<rparr>"


subsection \<open>Auxiliary notions for the statements\<close>

text \<open>
  Every strategy is exhausted: the input is not taken for a ticker, the cache has no
  live entry for the key (or the caller forces a refresh), the table has no entry
  under the exchange filter, no provider yields a candidate, no table key is similar
  enough, and the OpenAI service yields nothing.
\<close>

definition strategies_exhausted ::
  "providers \<Rightarrow> catalog \<Rightarrow> int \<Rightarrow> string \<Rightarrow> options \<Rightarrow> cache \<Rightarrow> bool" where
  "strategies_exhausted w table now input opts c =
     (\<not> isTickerSymbol (toUpperCase (trim input)) \<and>
      (opt_forceRefresh opts \<or> fst (getCachedResolution now (normalizeString input) c) = None) \<and>
      tryLocalMapping table (normalizeString input) (opt_exchange opts) = None \<and>
      api_lookup w (opt_provider opts) (trim input) = Inr [] \<and>
      fuzzyMatchLocalTickers table (normalizeString input) (65 / 100) = [] \<and>
      resolveTickerWithOpenAI w (trim input) = Inr None)"

text \<open>The object of the \<^verbatim>\<open>// Not found\<close> exit.\<close>

definition not_found_result :: "string \<Rightarrow> int \<Rightarrow> resolution" where
  "not_found_result trimmedInput now =
     \<lparr>ticker = None, exchange = None, name = Some trimmedInput, companyName = None,
      confidence = Some 0, resolvedFrom = ''not_found'',
      telemetry = Some
        \<lparr>ev_type = ''symbol_not_found'', ev_input = trimmedInput, ev_timestamp = now,
         ev_ticker = None, ev_confidence = None, ev_resolvedFrom = None,
         ev_matches = None, ev_candidates = None\<rparr>\<rparr>"


text \<open>
  The raw, trimmed input is echoed in the telemetry's \<open>input\<close>, in the \<open>name\<close> of
  a not-found result, and in the \<open>companyName\<close> of an OpenAI result when the provider
  names no company (\<open>company_echoed\<close>). \<open>forget_raw_input\<close> blanks these echoes, in
  the outcome and in the objects the cache holds; the flag says whether
  \<open>companyName\<close> is one of them.
\<close>

definition company_echoed :: "providers \<Rightarrow> string \<Rightarrow> bool" where
  "company_echoed w query =
     (case openai w query of
        Json (Content result) \<Rightarrow> \<not> truthy (ai_companyName result)
      | _ \<Rightarrow> False)"

definition forget_event :: "telemetryEvent \<Rightarrow> telemetryEvent" where
  "forget_event ev = ev\<lparr>ev_input := []\<rparr>"

definition forget_resolution :: "bool \<Rightarrow> resolution \<Rightarrow> resolution" where
  "forget_resolution echoed r =
     r\<lparr>name := (if resolvedFrom r = ''not_found'' then None else name r),
       companyName := (if echoed \<and> resolvedFrom r = ''openai'' then None else companyName r),
       telemetry := map_option forget_event (telemetry r)\<rparr>"

fun forget_outcome :: "bool \<Rightarrow> outcome \<Rightarrow> outcome" where
  "forget_outcome echoed (Resolved r) = Resolved (forget_resolution echoed r)"
| "forget_outcome echoed (Ambiguous ms src ev) =
     Ambiguous (map (forget_resolution echoed) ms) src (forget_event ev)"

definition forget_cache :: "bool \<Rightarrow> cache \<Rightarrow> cache" where
  "forget_cache echoed c = map (\<lambda>(k, e). (k, e\<lparr>data := forget_resolution echoed (data e)\<rparr>)) c"

definition forget_raw_input ::
  "bool \<Rightarrow> js_exn + outcome \<times> cache \<Rightarrow> js_exn + outcome \<times> cache" where
  "forget_raw_input echoed res =
     map_sum id (\<lambda>(out, c). (forget_outcome echoed out, forget_cache echoed c)) res"

text \<open>
  The shape the documentation gives for a ticker: one to five upper-case letters,
  optionally followed by a dot and one or two upper-case letters.
\<close>

definition ticker_shaped :: "string \<Rightarrow> bool" where
  "ticker_shaped s =
     (\<exists>a b. s = a @ b \<and> 1 \<le> length a \<and> length a \<le> 5 \<and> list_all is_upper a \<and>
        (b = [] \<or> (\<exists>d. b = CHR ''.'' # d \<and> 1 \<le> length d \<and> length d \<le> 2 \<and> list_all is_upper d)))"

text \<open>
  Six or seven upper-case letters: what the resolver's pattern accepts beyond the
  documented shape.
\<close>

definition six_or_seven_letters :: "string \<Rightarrow> bool" where
  "six_or_seven_letters s = (list_all is_upper s \<and> (length s = 6 \<or> length s = 7))"

text \<open>
  A matrix of \<open>len2 + 1\<close> rows of \<open>len1 + 1\<close> cells in which no cell exceeds the
  larger of its two indices.
\<close>

definition within_bound :: "nat \<Rightarrow> nat \<Rightarrow> nat list list \<Rightarrow> bool" where
  "within_bound len1 len2 m =
     (length m = len2 + 1 \<and>
      (\<forall>r \<le> len2. length (m ! r) = len1 + 1 \<and> (\<forall>c \<le> len1. m ! r ! c \<le> max r c)))"

text \<open>The similarity of a candidate to the key, recomputed from its \<open>name\<close>.\<close>

definition similarity_of :: "string \<Rightarrow> resolution \<Rightarrow> rat" where
  "similarity_of key r = the (fuzzy_similarity key (the (name r)))"

section \<open>Properties\<close>

subsection \<open>Association lists\<close>

lemma map_of_map_set: "map_of (map_set k v ps) k = Some v"
  by (induction ps) auto

lemma map_of_map_delete: "map_of (map_delete k ps) k = None"
  by (induction ps) (auto simp: map_delete_def)

lemma map_of_map_delete_other: "k' \<noteq> k \<Longrightarrow> map_of (map_delete k ps) k' = map_of ps k'"
  by (induction ps) (auto simp: map_delete_def)


subsection \<open>Ticker detection\<close>

lemma rx_rest_Lit: "set (rx_rest (Lit d) s) = {cs. s = d # cs}"
  by (cases s) auto

lemma rx_rest_Rep_Upper:
  "set (rx_rest (Rep lo hi Upper) s) =
     {drop n s | n. lo \<le> n \<and> n \<le> hi \<and> n \<le> length s \<and> list_all is_upper (take n s)}"
proof (induction hi arbitrary: lo s)
  case 0
  show ?case by auto
next
  case (Suc hi)
  show ?case
  proof (cases s)
    case Nil
    then show ?thesis by auto
  next
    case (Cons c cs)
    show ?thesis
    proof (cases "is_upper c")
      case False
      have "list_all is_upper (take n (c # cs)) \<longleftrightarrow> n = 0" for n
        using False by (cases n) auto
      with Cons False show ?thesis by auto
    next
      case True
      have "set (rx_rest (Rep lo (Suc hi) Upper) s) =
              set (rx_rest (Rep (lo - 1) hi Upper) cs) \<union> (if lo = 0 then {s} else {})"
        using Cons True by simp
      also have "\<dots> = {drop n cs | n. lo - 1 \<le> n \<and> n \<le> hi \<and> n \<le> length cs \<and>
                            list_all is_upper (take n cs)} \<union> (if lo = 0 then {s} else {})"
        by (simp only: Suc.IH)
      also have "\<dots> = {drop n s | n. lo \<le> n \<and> n \<le> Suc hi \<and> n \<le> length s \<and>
                            list_all is_upper (take n s)}" (is "?L = ?R")
      proof (intro equalityI subsetI)
        fix x assume "x \<in> ?L"
        then consider n where "x = drop n cs" "lo - 1 \<le> n" "n \<le> hi" "n \<le> length cs"
            "list_all is_upper (take n cs)"
          | "lo = 0" "x = s"
          by (auto split: if_splits)
        then show "x \<in> ?R"
        proof cases
          case 1
          with Cons True show ?thesis by (intro CollectI exI [of _ "Suc n"]) auto
        next
          case 2
          then show ?thesis by (intro CollectI exI [of _ 0]) auto
        qed
      next
        fix x assume "x \<in> ?R"
        then obtain n where n: "x = drop n s" "lo \<le> n" "n \<le> Suc hi" "n \<le> length s"
            "list_all is_upper (take n s)"
          by auto
        show "x \<in> ?L"
        proof (cases n)
          case 0
          with n show ?thesis by auto
        next
          case (Suc m)
          with n Cons have "x = drop m cs" "lo - 1 \<le> m" "m \<le> hi" "m \<le> length cs"
              "list_all is_upper (take m cs)"
            by auto
          then show ?thesis by blast
        qed
      qed
      finally show ?thesis .
    qed
  qed
qed

text \<open>All of \<open>s\<close> is between \<open>lo\<close> and \<open>hi\<close> upper-case letters.\<close>

lemma Rep_Upper_all: "[] \<in> set (rx_rest (Rep lo hi Upper) s) \<longleftrightarrow>
    lo \<le> length s \<and> length s \<le> hi \<and> list_all is_upper s"
  by (auto simp: rx_rest_Rep_Upper intro: exI [of _ "length s"])

lemma Rep_Upper_split: "b \<in> set (rx_rest (Rep lo hi Upper) s) \<longleftrightarrow>
    (\<exists>a. s = a @ b \<and> lo \<le> length a \<and> length a \<le> hi \<and> list_all is_upper a)"
proof
  assume "b \<in> set (rx_rest (Rep lo hi Upper) s)"
  then obtain n where "b = drop n s" "lo \<le> n" "n \<le> hi" "n \<le> length s" "list_all is_upper (take n s)"
    by (auto simp: rx_rest_Rep_Upper)
  then show "\<exists>a. s = a @ b \<and> lo \<le> length a \<and> length a \<le> hi \<and> list_all is_upper a"
    by (intro exI [of _ "take n s"]) auto
next
  assume "\<exists>a. s = a @ b \<and> lo \<le> length a \<and> length a \<le> hi \<and> list_all is_upper a"
  then obtain a where "s = a @ b" "lo \<le> length a" "length a \<le> hi" "list_all is_upper a" by blast
  then show "b \<in> set (rx_rest (Rep lo hi Upper) s)"
    by (auto simp: rx_rest_Rep_Upper intro!: exI [of _ "length a"])
qed

text \<open>The predicate of \<^verbatim>\<open>stringUtils.js\<close> accepts exactly the documented shape.\<close>

lemma isValidTickerFormat_iff: "isValidTickerFormat s = ticker_shaped s"
proof -
  have "isValidTickerFormat s \<longleftrightarrow>
          (\<exists>b \<in> set (rx_rest (Rep 1 5 Upper) s).
             b = [] \<or> (\<exists>d. b = CHR ''.'' # d \<and> [] \<in> set (rx_rest (Rep 1 2 Upper) d)))"
    by (auto simp: isValidTickerFormat_def rx_test_def validTickerPattern_def rx_rest_Lit
        simp del: rx_rest.simps(6))
  also have "\<dots> \<longleftrightarrow> ticker_shaped s"
    unfolding ticker_shaped_def Rep_Upper_all Bex_def Rep_Upper_split by blast
  finally show ?thesis .
qed

text \<open>The predicate of the resolver accepts six and seven letters besides.\<close>

lemma isTickerSymbol_iff:
  "isTickerSymbol s \<longleftrightarrow> ticker_shaped s \<or> (list_all is_upper s \<and> (length s = 6 \<or> length s = 7))"
proof -
  have "isTickerSymbol s \<longleftrightarrow>
          (\<exists>b \<in> set (rx_rest (Rep 1 5 Upper) s).
             b = [] \<or> (\<exists>d. b = CHR ''.'' # d \<and> [] \<in> set (rx_rest (Rep 1 2 Upper) d))
                    \<or> [] \<in> set (rx_rest (Rep 1 2 Upper) b))"
    by (auto simp: isTickerSymbol_def rx_test_def tickerPattern_def rx_rest_Lit
        simp del: rx_rest.simps(6))
  also have "\<dots> \<longleftrightarrow> ticker_shaped s \<or>
      (\<exists>a b. s = a @ b \<and> 1 \<le> length a \<and> length a \<le> 5 \<and> list_all is_upper a \<and>
             1 \<le> length b \<and> length b \<le> 2 \<and> list_all is_upper b)"
    unfolding ticker_shaped_def Rep_Upper_all Bex_def Rep_Upper_split by blast
  also have "(\<exists>a b. s = a @ b \<and> 1 \<le> length a \<and> length a \<le> 5 \<and> list_all is_upper a \<and>
             1 \<le> length b \<and> length b \<le> 2 \<and> list_all is_upper b) \<longleftrightarrow>
        list_all is_upper s \<and> 2 \<le> length s \<and> length s \<le> 7" (is "?L \<longleftrightarrow> ?R")
  proof
    assume ?L then show ?R by auto
  next
    assume r: ?R
    define n where "n = (if length s \<le> 6 then length s - 1 else 5 :: nat)"
    have u: "list_all is_upper (take n s)" "list_all is_upper (drop n s)"
      using r by (auto simp: list_all_iff dest: in_set_takeD in_set_dropD)
    have "s = take n s @ drop n s" by simp
    moreover have "1 \<le> length (take n s)" "length (take n s) \<le> 5"
      "1 \<le> length (drop n s)" "length (drop n s) \<le> 2"
      using r by (auto simp: n_def)
    ultimately show ?L using u by blast
  qed
  also have "ticker_shaped s \<or> (list_all is_upper s \<and> 2 \<le> length s \<and> length s \<le> 7) \<longleftrightarrow>
      ticker_shaped s \<or> (list_all is_upper s \<and> (length s = 6 \<or> length s = 7))"
  proof -
    have "ticker_shaped s" if "list_all is_upper s" "2 \<le> length s" "length s \<le> 5"
      unfolding ticker_shaped_def using that by (intro exI [of _ s] exI [of _ "[]"]) auto
    moreover have "length s = 6 \<or> length s = 7" if "\<not> length s \<le> 5" "length s \<le> 7"
      using that by arith
    ultimately show ?thesis by (cases "length s \<le> 5") auto
  qed
  finally show ?thesis .
qed

text \<open>
  C4. The claim: the ticker-shape predicate holds exactly for one to five upper-case
  letters, optionally followed by a dot and one or two more, so six or seven letters
  without a dot are not ticker-shaped. \<open>isValidTickerFormat\<close> behaves so, but the
  predicate the resolver calls, \<open>isTickerSymbol\<close>, makes the dot optional and accepts
  the six letters of \<^verbatim>\<open>NVIDIA\<close> and the seven of \<^verbatim>\<open>TOOLONG\<close>.
\<close>

theorem isTickerSymbol_six_seven_letters:
  "isTickerSymbol (toUpperCase ''NVIDIA'') \<and> isTickerSymbol (toUpperCase ''toolong'') \<and>
   \<not> isValidTickerFormat (toUpperCase ''NVIDIA'') \<and>
   \<not> isValidTickerFormat (toUpperCase ''toolong'')"
  by code_simp

text \<open>
  C1. The claim: \<^verbatim>\<open>NVIDIA\<close> with default options and an empty cache resolves to
  \<^verbatim>\<open>NVDA\<close> from the local mapping with confidence 0.99. The resolver instead takes
  the six letters for a ticker: it returns the input itself, from input detection,
  with confidence 1, whatever the providers and the clock.
\<close>

theorem resolve_NVIDIA_input_detection:
  "resolveTickerOrCompanyName w localTickerMapping now (JS_string ''NVIDIA'') default_options [] =
     Inr (Resolved
            \<lparr>ticker = Some ''NVIDIA'', exchange = Some ''UNKNOWN'', name = None,
             companyName = None, confidence = Some 1, resolvedFrom = ''input_detection'',
             telemetry = Some
               \<lparr>ev_type = ''ticker_resolution_detected_ticker'', ev_input = ''NVIDIA'',
                ev_timestamp = now, ev_ticker = Some ''NVIDIA'', ev_confidence = None,
                ev_resolvedFrom = Some ''input_detection'', ev_matches = None,
                ev_candidates = None\<rparr>\<rparr>,
          [])"
proof -
  have t: "trim ''NVIDIA'' = ''NVIDIA''" by code_simp
  have u: "toUpperCase ''NVIDIA'' = ''NVIDIA''" by code_simp
  have d: "isTickerSymbol ''NVIDIA''" by code_simp
  show ?thesis
    by (simp add: resolveTickerOrCompanyName_def trim_method_def then_do_def Let_def t u d
        attempt_event_def default_options_def or_else_def truthy_def)
qed

text \<open>The local mapping itself does hold the entry the claim expects.\<close>

lemma catalog_resolves_nvidia:
  "tryLocalMapping localTickerMapping (normalizeString ''NVIDIA'') None =
     Some \<lparr>ticker = Some ''NVDA'', exchange = Some ''NASDAQ'', name = Some ''nvidia'',
           companyName = None, confidence = Some (99 / 100), resolvedFrom = ''local_cache'',
           telemetry = None\<rparr>"
  by code_simp

subsection \<open>Similarity\<close>

text \<open>
  C9. The claim: the similarity of two strings lies in \<open>[0, 1]\<close> and is 1 when both
  are empty, the division by zero being guarded. \<open>calculateSimilarity\<close> has no guard:
  for two empty strings it computes \<^verbatim>\<open>1 - 0 / 0\<close>, which is NaN.
\<close>

theorem calculateSimilarity_empty_strings:
  "calculateSimilarity [] [] = None"
  by code_simp

lemma within_bound_write:
  assumes "within_bound len1 len2 m" "j \<le> len2" "i \<le> len1" "v \<le> max j i"
  shows "within_bound len1 len2 (m[j := (m ! j)[i := v]])"
  using assms by (auto simp: within_bound_def nth_list_update)

lemma within_bound_fold:
  assumes "\<And>x m. x \<in> set xs \<Longrightarrow> within_bound len1 len2 m \<Longrightarrow> within_bound len1 len2 (f x m)"
    and "within_bound len1 len2 m"
  shows "within_bound len1 len2 (fold f xs m)"
  using assms by (induction xs arbitrary: m) auto

lemma within_bound_fill_cell:
  assumes "within_bound len1 len2 m" "1 \<le> j" "j \<le> len2" "1 \<le> i" "i \<le> len1"
  shows "within_bound len1 len2 (fill_cell str1 str2 j i m)"
proof -
  let ?cost = "if str1 ! (i - 1) = str2 ! (j - 1) then 0 else 1 :: nat"
  from assms have "m ! (j - 1) ! (i - 1) \<le> max (j - 1) (i - 1)"
    by (simp add: within_bound_def)
  moreover from assms(2,4) have "max (j - 1) (i - 1) + 1 = max j i"
    by arith
  moreover have "?cost \<le> 1" by simp
  ultimately have "m ! (j - 1) ! (i - 1) + ?cost \<le> max j i"
    by linarith
  then have "min (min (m ! j ! (i - 1) + 1) (m ! (j - 1) ! i + 1))
          (m ! (j - 1) ! (i - 1) + ?cost) \<le> max j i"
    by (rule min.coboundedI2)
  with assms show ?thesis
    unfolding fill_cell_def Let_def by (intro within_bound_write)
qed

lemma within_bound_zeros:
  "within_bound len1 len2 (replicate (len2 + 1) (replicate (len1 + 1) 0))"
  unfolding within_bound_def
proof (intro conjI allI impI)
  show "length (replicate (len2 + 1) (replicate (len1 + 1) (0 :: nat))) = len2 + 1"
    by (simp only: length_replicate)
  fix r assume "r \<le> len2"
  then have r: "replicate (len2 + 1) (replicate (len1 + 1) (0 :: nat)) ! r = replicate (len1 + 1) 0"
    by (intro nth_replicate) simp
  show "length (replicate (len2 + 1) (replicate (len1 + 1) (0 :: nat)) ! r) = len1 + 1"
    by (simp only: r length_replicate)
  fix c assume "c \<le> len1"
  then have "replicate (len1 + 1) (0 :: nat) ! c = 0"
    by (intro nth_replicate) simp
  then have "replicate (len2 + 1) (replicate (len1 + 1) (0 :: nat)) ! r ! c = 0"
    by (simp only: r)
  then show "replicate (len2 + 1) (replicate (len1 + 1) (0 :: nat)) ! r ! c \<le> max r c"
    by (simp only: le0)
qed

text \<open>The distance never exceeds the length of the longer string.\<close>

lemma levenshteinDistance_le: "levenshteinDistance str1 str2 \<le> max (length str1) (length str2)"
proof -
  let ?len1 = "length str1" and ?len2 = "length str2"
  let ?m0 = "replicate (?len2 + 1) (replicate (?len1 + 1) (0 :: nat))"
  let ?m1 = "fold (\<lambda>i m. m[0 := (m ! 0)[i := i]]) [0 ..< ?len1 + 1] ?m0"
  let ?m2 = "fold (\<lambda>j m. m[j := (m ! j)[0 := j]]) [0 ..< ?len2 + 1] ?m1"
  let ?m3 = "fold (\<lambda>j m. fold (fill_cell str1 str2 j) [1 ..< ?len1 + 1] m) [1 ..< ?len2 + 1] ?m2"
  have "within_bound ?len1 ?len2 ?m1"
  proof (rule within_bound_fold)
    show "within_bound ?len1 ?len2 ?m0" by (rule within_bound_zeros)
  next
    fix i m assume "i \<in> set [0 ..< ?len1 + 1]" "within_bound ?len1 ?len2 m"
    then show "within_bound ?len1 ?len2 (m[0 := (m ! 0)[i := i]])"
      by (intro within_bound_write) auto
  qed
  then have "within_bound ?len1 ?len2 ?m2"
  proof (rule within_bound_fold [rotated])
    fix j m assume "j \<in> set [0 ..< ?len2 + 1]" "within_bound ?len1 ?len2 m"
    then show "within_bound ?len1 ?len2 (m[j := (m ! j)[0 := j]])"
      by (intro within_bound_write) auto
  qed
  then have "within_bound ?len1 ?len2 ?m3"
  proof (rule within_bound_fold [rotated])
    fix j m assume j: "j \<in> set [1 ..< ?len2 + 1]" and m: "within_bound ?len1 ?len2 m"
    from m show "within_bound ?len1 ?len2 (fold (fill_cell str1 str2 j) [1 ..< ?len1 + 1] m)"
    proof (rule within_bound_fold [rotated])
      fix i m' assume "i \<in> set [1 ..< ?len1 + 1]" "within_bound ?len1 ?len2 m'"
      with j show "within_bound ?len1 ?len2 (fill_cell str1 str2 j i m')"
        by (intro within_bound_fill_cell) auto
    qed
  qed
  then have "?m3 ! ?len2 ! ?len1 \<le> max ?len2 ?len1"
    by (simp add: within_bound_def)
  then show ?thesis
    by (simp add: levenshteinDistance_def Let_def max.commute)
qed

text \<open>Unless both strings are empty the similarity is a number between 0 and 1.\<close>

lemma calculateSimilarity_range:
  assumes "str1 \<noteq> [] \<or> str2 \<noteq> []"
  shows "\<exists>q. calculateSimilarity str1 str2 = Some q \<and> 0 \<le> q \<and> q \<le> 1"
proof -
  let ?d = "levenshteinDistance str1 str2" and ?n = "max (length str1) (length str2)"
  from assms have n: "0 < ?n" by (cases str1; cases str2) simp_all
  have "?d \<le> ?n" by (rule levenshteinDistance_le)
  then have "(of_nat ?d :: rat) \<le> of_nat ?n" by (simp only: of_nat_le_iff)
  with n have "(of_nat ?d :: rat) / of_nat ?n \<le> 1" "0 \<le> (of_nat ?d :: rat) / of_nat ?n"
    by (simp_all add: divide_le_eq_1)
  moreover from assms have "js_div ?d ?n = Some (of_nat ?d / of_nat ?n)"
    by (auto simp: js_div_def)
  ultimately show ?thesis
    by (simp add: calculateSimilarity_def Let_def)
qed


subsection \<open>The cache\<close>

text \<open>
  C5. A key set at time \<open>T\<close> is stored with that time. A read at \<open>T'\<close> of a cache
  holding the entry returns the stored resolution and leaves the cache alone when
  \<open>T' - T\<close> is less than 24 hours; from 24 hours on it returns nothing and the cache
  it leaves has lost the entry for the key, and only that one.
\<close>

theorem cache_read_ttl:
  "map_of (setCacheResolution T key r c0) key = Some \<lparr>data = r, timestamp = T\<rparr> \<and>
   (map_of c key = Some \<lparr>data = r, timestamp = T\<rparr> \<longrightarrow>
      (T' - T < 24 * 60 * 60 * 1000 \<longrightarrow> getCachedResolution T' key c = (Some r, c)) \<and>
      (T' - T \<ge> 24 * 60 * 60 * 1000 \<longrightarrow>
         getCachedResolution T' key c = (None, map_delete key c) \<and>
         map_of (map_delete key c) key = None \<and>
         (\<forall>k'. k' \<noteq> key \<longrightarrow> map_of (map_delete key c) k' = map_of c k')))"
  by (simp add: setCacheResolution_def map_of_map_set getCachedResolution_def CACHE_TTL_MS_def
      map_of_map_delete map_of_map_delete_other)

theorem cache_read_ttl_witness:
  "map_of (setCacheResolution 0 ''3m'' sample_resolution []) ''3m''
     = Some \<lparr>data = sample_resolution, timestamp = 0\<rparr> \<and>
   getCachedResolution 86399999 ''3m'' (setCacheResolution 0 ''3m'' sample_resolution [])
     = (Some sample_resolution, setCacheResolution 0 ''3m'' sample_resolution []) \<and>
   getCachedResolution 86400000 ''3m'' (setCacheResolution 0 ''3m'' sample_resolution [])
     = (None, [])"
  using cache_read_ttl [of 0 "''3m''" sample_resolution "[]"
          "setCacheResolution 0 ''3m'' sample_resolution []" 86399999]
        cache_read_ttl [of 0 "''3m''" sample_resolution "[]"
          "setCacheResolution 0 ''3m'' sample_resolution []" 86400000]
  by (simp add: setCacheResolution_def map_delete_def)

text \<open>
  C10. \<open>getCacheStats\<close> leaves the cache as it found it, reports as size the number
  of entries and lists every key; an entry whose age has reached 24 hours is listed
  with that age, although a lookup of its key at the same moment returns nothing.
\<close>

theorem getCacheStats_counts_expired:
  "snd (getCacheStats now c) = c \<and>
   st_size (fst (getCacheStats now c)) = length c \<and>
   map st_input (st_entries (fst (getCacheStats now c))) = map fst c \<and>
   (map_of c k = Some e \<and> now - timestamp e \<ge> 24 * 60 * 60 * 1000 \<longrightarrow>
      \<lparr>st_input = k, st_ticker = ticker (data e), st_age = now - timestamp e\<rparr>
        \<in> set (st_entries (fst (getCacheStats now c))) \<and>
      fst (getCachedResolution now k c) = None)"
proof -
  have "\<lparr>st_input = k, st_ticker = ticker (data e), st_age = now - timestamp e\<rparr>
          \<in> set (st_entries (fst (getCacheStats now c)))"
    if "map_of c k = Some e"
  proof -
    from that have "(k, e) \<in> set c" by (rule map_of_SomeD)
    then show ?thesis by (force simp: getCacheStats_def)
  qed
  then show ?thesis
    by (auto simp: getCacheStats_def getCachedResolution_def CACHE_TTL_MS_def o_def split_def)
qed

theorem getCacheStats_counts_expired_witness:
  "st_size (fst (getCacheStats 86400000 [(''3m'', \<lparr>data = sample_resolution, timestamp = 0\<rparr>)])) = 1 \<and>
   snd (getCacheStats 86400000 [(''3m'', \<lparr>data = sample_resolution, timestamp = 0\<rparr>)])
     = [(''3m'', \<lparr>data = sample_resolution, timestamp = 0\<rparr>)] \<and>
   \<lparr>st_input = ''3m'', st_ticker = Some ''MMM'', st_age = 86400000\<rparr>
     \<in> set (st_entries (fst (getCacheStats 86400000
               [(''3m'', \<lparr>data = sample_resolution, timestamp = 0\<rparr>)]))) \<and>
   fst (getCachedResolution 86400000 ''3m''
          [(''3m'', \<lparr>data = sample_resolution, timestamp = 0\<rparr>)]) = None"
  using getCacheStats_counts_expired [of 86400000
      "[(''3m'', \<lparr>data = sample_resolution, timestamp = 0\<rparr>)]"
      "''3m''" "\<lparr>data = sample_resolution, timestamp = 0\<rparr>"]
  by (simp add: sample_resolution_def)

subsection \<open>Exceptions stay inside the adapters\<close>

lemma tryFinnhubLookup_returns: "\<exists>r. tryFinnhubLookup w q = Inr r"
  by (cases "map_throwing finnhub_candidate (case finnhub w q of Json (Items xs) \<Rightarrow> xs | _ \<Rightarrow> [])")
     (auto simp: tryFinnhubLookup_def try_catch_def then_do_def
      split: response.splits search_body.splits sum.splits)

lemma tryIexCloudLookup_returns: "\<exists>r. tryIexCloudLookup w q = Inr r"
  by (auto simp: tryIexCloudLookup_def try_catch_def then_do_def
      split: response.splits search_body.splits sum.splits)

lemma resolveTickerWithOpenAI_returns: "\<exists>r. resolveTickerWithOpenAI w q = Inr r"
  by (auto simp: resolveTickerWithOpenAI_def try_catch_def then_do_def
      split: response.splits openai_body.splits sum.splits)

lemma openai_step_returns: "\<exists>res. openai_step w now ev k t c = Inr res"
  using resolveTickerWithOpenAI_returns [of w t]
  by (auto simp: openai_step_def try_catch_def then_do_def Let_def
      split: sum.splits option.splits)

lemma fuzzy_step_returns: "\<exists>res. fuzzy_step w table now ev k t c = Inr res"
  using openai_step_returns [of w now ev k t c]
  by (auto simp: fuzzy_step_def Let_def)

lemma api_lookup_returns: "\<exists>rs. api_lookup w p t = Inr rs"
  using tryFinnhubLookup_returns [of w t] tryIexCloudLookup_returns [of w t]
  by (auto simp: api_lookup_def then_do_def split: sum.splits option.splits)

lemma api_step_returns: "\<exists>res. api_step w table now opts ev k t c = Inr res"
  using api_lookup_returns [of w "opt_provider opts" t]
    fuzzy_step_returns [of w table now ev k t c]
  by (auto simp: api_step_def then_do_def Let_def split: sum.splits)

lemma local_step_returns: "\<exists>res. local_step w table now opts ev k t c = Inr res"
  using api_step_returns [of w table now opts ev k t c]
  by (auto simp: local_step_def Let_def split: option.splits)

lemma cache_step_returns: "\<exists>res. cache_step w table now opts ev k t c = Inr res"
  using local_step_returns [of w table now opts ev k t]
  by (auto simp: cache_step_def Let_def split: option.splits prod.splits)

lemma finnhub_failure_absent:
  "\<not> truthy (FINNHUB_API_KEY w) \<or> finnhub w q \<in> {Fetch_rejects, Not_ok, Bad_json, Json Not_an_object}
     \<Longrightarrow> tryFinnhubLookup w q = Inr None"
  by (auto simp: tryFinnhubLookup_def try_catch_def)

lemma iex_failure_absent:
  "\<not> truthy (IEX_CLOUD_API_KEY w) \<or> iex_cloud w q \<in> {Fetch_rejects, Not_ok, Bad_json, Json Not_an_object}
     \<Longrightarrow> tryIexCloudLookup w q = Inr None"
  by (auto simp: tryIexCloudLookup_def try_catch_def)

lemma openai_failure_absent:
  "\<not> truthy (OPENAI_API_KEY w) \<or>
   openai w q \<in> {Fetch_rejects, Not_ok, Bad_json, Json No_message, Json Content_not_string,
                  Json Content_unparsable, Json Content_null, Json Content_ticker_not_string}
     \<Longrightarrow> resolveTickerWithOpenAI w q = Inr None"
  by (auto simp: resolveTickerWithOpenAI_def try_catch_def)

text \<open>
  For every input that is a string, and for all options, table, cache, clock and
  behaviour of the providers, the resolver returns a value. So does each adapter,
  and an adapter whose credential is missing, whose request fails or is refused, or
  whose response is malformed returns nothing.
\<close>

lemma resolve_string_returns:
  assumes "ascii s"
  shows "(\<exists>res. resolveTickerOrCompanyName w table now (JS_string s) opts c = Inr res) \<and>
   (\<exists>r. tryFinnhubLookup w query = Inr r) \<and>
   (\<exists>r. tryIexCloudLookup w query = Inr r) \<and>
   (\<exists>r. resolveTickerWithOpenAI w query = Inr r) \<and>
   (\<not> truthy (FINNHUB_API_KEY w) \<or>
    finnhub w query \<in> {Fetch_rejects, Not_ok, Bad_json, Json Not_an_object}
      \<longrightarrow> tryFinnhubLookup w query = Inr None) \<and>
   (\<not> truthy (IEX_CLOUD_API_KEY w) \<or>
    iex_cloud w query \<in> {Fetch_rejects, Not_ok, Bad_json, Json Not_an_object}
      \<longrightarrow> tryIexCloudLookup w query = Inr None) \<and>
   (\<not> truthy (OPENAI_API_KEY w) \<or>
    openai w query \<in> {Fetch_rejects, Not_ok, Bad_json, Json No_message, Json Content_not_string,
                       Json Content_unparsable, Json Content_null, Json Content_ticker_not_string}
      \<longrightarrow> resolveTickerWithOpenAI w query = Inr None)"
proof -
  have "\<exists>res. resolveTickerOrCompanyName w table now (JS_string s) opts c = Inr res"
    using cache_step_returns [of w table now opts "attempt_event (trim s) now"
        "normalizeString s" "trim s" c]
    by (auto simp: resolveTickerOrCompanyName_def trim_method_def normalizeInput_def then_do_def
        Let_def)
  then show ?thesis
    using tryFinnhubLookup_returns [of w query] tryIexCloudLookup_returns [of w query]
      resolveTickerWithOpenAI_returns [of w query]
      finnhub_failure_absent [of w query] iex_failure_absent [of w query]
      openai_failure_absent [of w query]
    by blast
qed

text \<open>An input that is not a string: \<^verbatim>\<open>input.trim()\<close> throws before anything else.\<close>

lemma resolve_not_a_string:
  "\<forall>s. input \<noteq> JS_string s \<Longrightarrow>
     resolveTickerOrCompanyName w table now input opts c = Inl TypeError"
  by (cases input) (simp_all add: resolveTickerOrCompanyName_def trim_method_def then_do_def)

text \<open>
  C7. The claim: the resolver never throws, for any input. The adapters do absorb
  their failures, and for a string the resolver returns a value; but
  \<^verbatim>\<open>input.trim()\<close> stands outside every \<^verbatim>\<open>try\<close>, so for an input that is not a
  string - the number 42 or an object of a JSON body, which the POST route passes on
  unchecked - the call throws a \<^verbatim>\<open>TypeError\<close> (the promise of the \<^verbatim>\<open>async\<close>
  function is rejected), although \<^verbatim>\<open>normalizeString\<close> one line earlier guards
  against such input and returns the empty string.
\<close>

theorem resolve_non_string_throws:
  "resolveTickerOrCompanyName w table now (JS_number 42) opts c = Inl TypeError \<and>
   resolveTickerOrCompanyName w table now JS_object opts c = Inl TypeError \<and>
   normalizeInput (JS_number 42) = [] \<and> normalizeInput JS_object = []"
  by (simp add: resolveTickerOrCompanyName_def trim_method_def then_do_def normalizeInput_def)

subsection \<open>Several candidates from a provider\<close>

text \<open>
  C3. The claim: when the providers yield more than one candidate the resolver
  returns an ambiguous result and writes nothing to the cache, so that the same call
  again repeats the lookups. The resolver stores the first candidate before it
  looks at their number: after the ambiguous answer the cache holds an entry, the
  statistics differ, and the same call again is answered from the cache with that
  candidate.
\<close>

theorem ambiguous_api_result_is_cached:
  "resolveTickerOrCompanyName two_listings localTickerMapping 0 (JS_string ''Acme Holdings'')
       default_options [] =
     Inr (Ambiguous [acme_listing, acmh_listing] ''api_search''
            \<lparr>ev_type = ''symbol_ambiguous'', ev_input = ''Acme Holdings'', ev_timestamp = 0,
             ev_ticker = None, ev_confidence = None, ev_resolvedFrom = None,
             ev_matches = Some 2,
             ev_candidates = Some [(Some ''ACME'', Some (85 / 100)),
                                   (Some ''ACMH'', Some (85 / 100))]\<rparr>,
          [(''acmeholdings'', \<lparr>data = acme_listing, timestamp = 0\<rparr>)]) \<and>
   fst (getCacheStats 0 []) \<noteq>
     fst (getCacheStats 0 [(''acmeholdings'', \<lparr>data = acme_listing, timestamp = 0\<rparr>)]) \<and>
   resolveTickerOrCompanyName two_listings localTickerMapping 1000 (JS_string ''Acme Holdings'')
       default_options [(''acmeholdings'', \<lparr>data = acme_listing, timestamp = 0\<rparr>)] =
     Inr (Resolved (acme_listing\<lparr>telemetry := Some
            \<lparr>ev_type = ''ticker_resolution_cache_hit'', ev_input = ''Acme Holdings'',
             ev_timestamp = 1000, ev_ticker = Some ''ACME'', ev_confidence = None,
             ev_resolvedFrom = None, ev_matches = None, ev_candidates = None\<rparr>\<rparr>),
          [(''acmeholdings'', \<lparr>data = acme_listing\<lparr>telemetry := Some
            \<lparr>ev_type = ''ticker_resolution_cache_hit'', ev_input = ''Acme Holdings'',
             ev_timestamp = 1000, ev_ticker = Some ''ACME'', ev_confidence = None,
             ev_resolvedFrom = None, ev_matches = None, ev_candidates = None\<rparr>\<rparr>,
            timestamp = 0\<rparr>)])"
  by code_simp


text \<open>
  In general: whenever more than one candidate is left after the exchange filter,
  the call stores the first of the sorted candidates under the key.
\<close>

lemma api_step_stores_top_candidate:
  assumes "api_lookup w (opt_provider opts) t = Inr found"
    and "1 < length (filter_by_exchange (opt_exchange opts) found)"
  shows "api_step w table now opts ev k t c =
     Inr (Ambiguous (sort_by_confidence (filter_by_exchange (opt_exchange opts) found))
            ''api_search''
            (ev\<lparr>ev_type := ''symbol_ambiguous'',
                ev_matches := Some (length (filter_by_exchange (opt_exchange opts) found)),
                ev_candidates := Some (candidate_summaries
                  (sort_by_confidence (filter_by_exchange (opt_exchange opts) found)))\<rparr>),
          setCacheResolution now k
            (hd (sort_by_confidence (filter_by_exchange (opt_exchange opts) found))) c)"
proof -
  have "length (sort_by_confidence rs) = length rs" for rs
    by (simp add: sort_by_confidence_def)
  with assms show ?thesis
    by (cases "filter_by_exchange (opt_exchange opts) found")
       (simp_all add: api_step_def then_do_def Let_def)
qed

subsection \<open>Not found\<close>

lemma filter_by_exchange_Nil: "filter_by_exchange ex [] = []"
  by (simp add: filter_by_exchange_def)



lemma catalog_misses_3m: "tryLocalMapping localTickerMapping ''3m'' None = None"
  by code_simp

lemma fuzzy_3m_empty: "fuzzyMatchLocalTickers localTickerMapping ''3m'' (65 / 100) = []"
  by code_simp




text \<open>
  A name the table inherits is no exhaustion: for \<^verbatim>\<open>constructor\<close> the table lookup
  yields the inherited member, and the resolver returns and stores an object from
  the local mapping whose ticker, exchange and confidence are \<^verbatim>\<open>undefined\<close>.
\<close>

lemma inherited_name_is_a_local_match:
  "\<not> strategies_exhausted w localTickerMapping now ''constructor'' default_options c \<and>
   tryLocalMapping localTickerMapping ''constructor'' None =
     Some \<lparr>ticker = None, exchange = None, name = Some ''constructor'', companyName = None,
           confidence = None, resolvedFrom = ''local_cache'', telemetry = None\<rparr>"
proof -
  have k: "normalizeString ''constructor'' = ''constructor''" by code_simp
  have l: "tryLocalMapping localTickerMapping ''constructor'' None =
     Some \<lparr>ticker = None, exchange = None, name = Some ''constructor'', companyName = None,
           confidence = None, resolvedFrom = ''local_cache'', telemetry = None\<rparr>"
    by code_simp
  then show ?thesis
    by (simp add: strategies_exhausted_def k default_options_def)
qed

subsection \<open>Inputs with the same key\<close>

lemma forget_cache_map_set:
  "forget_cache e (map_set k x c) =
     map_set k (x\<lparr>data := forget_resolution e (data x)\<rparr>) (forget_cache e c)"
  by (induction c) (auto simp: forget_cache_def)

lemma forget_cache_set:
  "forget_cache e (setCacheResolution now k r c) =
     map_set k \<lparr>data = forget_resolution e r, timestamp = now\<rparr> (forget_cache e c)"
  by (simp add: setCacheResolution_def forget_cache_map_set)

lemma forget_telemetry:
  "forget_resolution e (r\<lparr>telemetry := Some ev\<rparr>) =
     (forget_resolution e r)\<lparr>telemetry := Some (forget_event ev)\<rparr>"
  by (simp add: forget_resolution_def)

lemma forget_fields:
  "ticker (forget_resolution e r) = ticker r"
  "confidence (forget_resolution e r) = confidence r"
  by (simp_all add: forget_resolution_def)

lemma forget_attempt:
  "forget_event (attempt_event t now\<lparr>ev_type := ty, ev_ticker := tk, ev_confidence := cf,
       ev_resolvedFrom := rf\<rparr>) =
   attempt_event [] now\<lparr>ev_type := ty, ev_ticker := tk, ev_confidence := cf,
       ev_resolvedFrom := rf\<rparr>"
  "forget_event (attempt_event t now\<lparr>ev_type := ty, ev_ticker := tk\<rparr>) =
   attempt_event [] now\<lparr>ev_type := ty, ev_ticker := tk\<rparr>"
  "forget_event (attempt_event t now\<lparr>ev_type := ty, ev_matches := m, ev_candidates := cs\<rparr>) =
   attempt_event [] now\<lparr>ev_type := ty, ev_matches := m, ev_candidates := cs\<rparr>"
  "forget_event (attempt_event t now\<lparr>ev_type := ty\<rparr>) =
   attempt_event [] now\<lparr>ev_type := ty\<rparr>"
  by (simp_all add: forget_event_def attempt_event_def)

lemma forget_cache_hit_attempt:
  "forget_cache e (map (\<lambda>(k', x). if k' = k
        then (k', x\<lparr>data := r\<lparr>telemetry := Some (attempt_event t now
                \<lparr>ev_type := ty, ev_ticker := tk\<rparr>)\<rparr>\<rparr>)
        else (k', x)) c) =
   map (\<lambda>(k', x). if k' = k
        then (k', x\<lparr>data := (forget_resolution e r)\<lparr>telemetry :=
                Some (attempt_event [] now\<lparr>ev_type := ty, ev_ticker := tk\<rparr>)\<rparr>\<rparr>)
        else (k', x)) (forget_cache e c)"
  by (induction c) (auto simp: forget_cache_def forget_telemetry forget_attempt)

lemma forget_not_found:
  "forget_raw_input e (Inr (not_found (attempt_event t1 now) t1 c)) =
   forget_raw_input e (Inr (not_found (attempt_event t2 now) t2 c))"
  by (simp add: forget_raw_input_def not_found_def forget_resolution_def forget_attempt)

text \<open>
  The OpenAI service answers two queries that get the same reply with the same
  object, up to the company name it takes from the query when the reply has none.
\<close>

lemma forget_ai_result:
  assumes "openai w t1 = openai w t2"
  shows "\<exists>x1 x2. resolveTickerWithOpenAI w t1 = Inr x1 \<and> resolveTickerWithOpenAI w t2 = Inr x2 \<and>
           map_option (forget_resolution (company_echoed w t1)) x1 =
           map_option (forget_resolution (company_echoed w t1)) x2"
  using assms
  by (auto simp: resolveTickerWithOpenAI_def company_echoed_def try_catch_def
      forget_resolution_def or_else_def split: response.splits openai_body.splits)

lemma forget_openai_step:
  assumes "openai w t1 = openai w t2"
  shows "forget_raw_input (company_echoed w t1) (openai_step w now (attempt_event t1 now) k t1 c) =
         forget_raw_input (company_echoed w t1) (openai_step w now (attempt_event t2 now) k t2 c)"
proof -
  let ?e = "company_echoed w t1"
  from forget_ai_result [OF assms] obtain x1 x2
    where x: "resolveTickerWithOpenAI w t1 = Inr x1" "resolveTickerWithOpenAI w t2 = Inr x2"
      "map_option (forget_resolution ?e) x1 = map_option (forget_resolution ?e) x2"
    by blast
  show ?thesis
  proof (cases x1)
    case None
    with x have "x2 = None" by simp
    with None x show ?thesis
      using forget_not_found [of ?e t1 now c t2]
      by (simp add: openai_step_def then_do_def try_catch_def)
  next
    case (Some r1)
    with x obtain r2 where r2: "x2 = Some r2"
        and f: "forget_resolution ?e r1 = forget_resolution ?e r2"
      by (cases x2) simp_all
    from f have tk: "ticker r1 = ticker r2" and cf: "confidence r1 = confidence r2"
      by (metis forget_fields(1), metis forget_fields(2))
    show ?thesis
    proof (cases "truthy (ticker r2)")
      case True
      with Some r2 x(1,2) tk cf f show ?thesis
        by (simp add: openai_step_def then_do_def try_catch_def Let_def forget_raw_input_def
            forget_cache_set forget_telemetry forget_attempt)
    next
      case False
      with Some r2 x(1,2) tk show ?thesis
        using forget_not_found [of ?e t1 now c t2]
        by (simp add: openai_step_def then_do_def try_catch_def)
    qed
  qed
qed

lemma forget_fuzzy_step:
  assumes "openai w t1 = openai w t2"
  shows "forget_raw_input (company_echoed w t1)
           (fuzzy_step w table now (attempt_event t1 now) k t1 c) =
         forget_raw_input (company_echoed w t1)
           (fuzzy_step w table now (attempt_event t2 now) k t2 c)"
  using forget_openai_step [OF assms, of now k c]
  by (simp add: fuzzy_step_def Let_def forget_raw_input_def forget_cache_set forget_telemetry
      forget_attempt)

lemma api_lookup_same_reply:
  assumes "finnhub w t1 = finnhub w t2" and "iex_cloud w t1 = iex_cloud w t2"
  shows "api_lookup w p t1 = api_lookup w p t2"
  by (simp only: api_lookup_def tryFinnhubLookup_def tryIexCloudLookup_def assms)

lemma forget_api_step:
  assumes "api_lookup w (opt_provider opts) t1 = api_lookup w (opt_provider opts) t2"
    and "openai w t1 = openai w t2"
  shows "forget_raw_input (company_echoed w t1)
           (api_step w table now opts (attempt_event t1 now) k t1 c) =
         forget_raw_input (company_echoed w t1)
           (api_step w table now opts (attempt_event t2 now) k t2 c)"
proof (cases "api_lookup w (opt_provider opts) t2")
  case (Inl x)
  with assms show ?thesis by (simp add: api_step_def then_do_def)
next
  case (Inr found)
  with assms show ?thesis
    using forget_fuzzy_step [OF assms(2), of table now k c]
    by (simp add: api_step_def then_do_def Let_def forget_raw_input_def forget_cache_set
        forget_telemetry forget_attempt)
qed

lemma forget_local_step:
  assumes "api_lookup w (opt_provider opts) t1 = api_lookup w (opt_provider opts) t2"
    and "openai w t1 = openai w t2"
  shows "forget_raw_input (company_echoed w t1)
           (local_step w table now opts (attempt_event t1 now) k t1 c) =
         forget_raw_input (company_echoed w t1)
           (local_step w table now opts (attempt_event t2 now) k t2 c)"
proof (cases "tryLocalMapping table k (opt_exchange opts)")
  case None
  then show ?thesis
    using forget_api_step [OF assms, of table now k c] by (simp add: local_step_def)
next
  case (Some r)
  then show ?thesis
    by (simp add: local_step_def Let_def forget_raw_input_def forget_cache_set forget_telemetry
        forget_attempt)
qed

lemma forget_cache_step:
  assumes "api_lookup w (opt_provider opts) t1 = api_lookup w (opt_provider opts) t2"
    and "openai w t1 = openai w t2"
  shows "forget_raw_input (company_echoed w t1)
           (cache_step w table now opts (attempt_event t1 now) k t1 c) =
         forget_raw_input (company_echoed w t1)
           (cache_step w table now opts (attempt_event t2 now) k t2 c)"
proof (cases "opt_forceRefresh opts")
  case True
  then show ?thesis
    using forget_local_step [OF assms, of table now k c] by (simp add: cache_step_def)
next
  case False
  obtain hit c' where g: "getCachedResolution now k c = (hit, c')"
    by (cases "getCachedResolution now k c")
  show ?thesis
  proof (cases hit)
    case None
    with False g show ?thesis
      using forget_local_step [OF assms, of table now k c'] by (simp add: cache_step_def)
  next
    case (Some r)
    with False g show ?thesis
      by (simp add: cache_step_def Let_def forget_raw_input_def forget_cache_hit_attempt
          forget_telemetry forget_attempt)
  qed
qed

text \<open>
  C2, amended. Take two ASCII inputs with the same normalised key, neither of which,
  trimmed and in upper case, is ticker-shaped or a run of six or seven letters, and
  resolve them against the same table, cache, options, clock and providers, where
  each provider gives the two raw queries the same reply. The two calls return the
  same outcome and leave the same cache, up to the raw input they echo: in the
  telemetry, in the name of a not-found result, and in the company name of an OpenAI
  result whose reply names no company.
\<close>

theorem same_key_same_resolution:
  assumes "ascii s1" and "ascii s2"
    and "normalizeString s1 = normalizeString s2"
    and "\<not> ticker_shaped (toUpperCase (trim s1))"
    and "\<not> six_or_seven_letters (toUpperCase (trim s1))"
    and "\<not> ticker_shaped (toUpperCase (trim s2))"
    and "\<not> six_or_seven_letters (toUpperCase (trim s2))"
    and "finnhub w (trim s1) = finnhub w (trim s2)"
    and "iex_cloud w (trim s1) = iex_cloud w (trim s2)"
    and "openai w (trim s1) = openai w (trim s2)"
  shows "forget_raw_input (company_echoed w (trim s1))
           (resolveTickerOrCompanyName w table now (JS_string s1) opts c) =
         forget_raw_input (company_echoed w (trim s1))
           (resolveTickerOrCompanyName w table now (JS_string s2) opts c)"
proof -
  have n1: "\<not> isTickerSymbol (toUpperCase (trim s1))"
    using assms(4,5) by (simp add: isTickerSymbol_iff six_or_seven_letters_def)
  have n2: "\<not> isTickerSymbol (toUpperCase (trim s2))"
    using assms(6,7) by (simp add: isTickerSymbol_iff six_or_seven_letters_def)
  have "api_lookup w (opt_provider opts) (trim s1) = api_lookup w (opt_provider opts) (trim s2)"
    using assms(8,9) by (rule api_lookup_same_reply)
  from forget_cache_step [OF this assms(10), of table now "normalizeString s2" c] assms(3) n1 n2
  show ?thesis
    by (simp add: resolveTickerOrCompanyName_def trim_method_def normalizeInput_def then_do_def
        Let_def)
qed

theorem same_key_same_resolution_witness:
  "ascii ''Berkshire Hathaway'' \<and> ascii ''  berkshire-hathaway '' \<and>
   normalizeString ''Berkshire Hathaway'' = normalizeString ''  berkshire-hathaway '' \<and>
   \<not> ticker_shaped (toUpperCase (trim ''Berkshire Hathaway'')) \<and>
   \<not> six_or_seven_letters (toUpperCase (trim ''Berkshire Hathaway'')) \<and>
   \<not> ticker_shaped (toUpperCase (trim ''  berkshire-hathaway '')) \<and>
   \<not> six_or_seven_letters (toUpperCase (trim ''  berkshire-hathaway '')) \<and>
   forget_raw_input (company_echoed no_providers (trim ''Berkshire Hathaway''))
     (resolveTickerOrCompanyName no_providers localTickerMapping 0
       (JS_string ''Berkshire Hathaway'') default_options []) =
   forget_raw_input (company_echoed no_providers (trim ''Berkshire Hathaway''))
     (resolveTickerOrCompanyName no_providers localTickerMapping 0
       (JS_string ''  berkshire-hathaway '') default_options [])"
proof -
  have a1: "ascii ''Berkshire Hathaway''" and a2: "ascii ''  berkshire-hathaway ''"
    by code_simp+
  have n: "normalizeString ''Berkshire Hathaway'' = normalizeString ''  berkshire-hathaway ''"
    by code_simp
  have t1: "\<not> ticker_shaped (toUpperCase (trim ''Berkshire Hathaway''))"
    unfolding isValidTickerFormat_iff [symmetric] by code_simp
  have t2: "\<not> ticker_shaped (toUpperCase (trim ''  berkshire-hathaway ''))"
    unfolding isValidTickerFormat_iff [symmetric] by code_simp
  have l1: "\<not> six_or_seven_letters (toUpperCase (trim ''Berkshire Hathaway''))" by code_simp
  have l2: "\<not> six_or_seven_letters (toUpperCase (trim ''  berkshire-hathaway ''))" by code_simp
  have f: "finnhub no_providers (trim ''Berkshire Hathaway'') =
           finnhub no_providers (trim ''  berkshire-hathaway '')"
    and i: "iex_cloud no_providers (trim ''Berkshire Hathaway'') =
           iex_cloud no_providers (trim ''  berkshire-hathaway '')"
    and o: "openai no_providers (trim ''Berkshire Hathaway'') =
           openai no_providers (trim ''  berkshire-hathaway '')"
    by (simp_all add: no_providers_def)
  show ?thesis
    using same_key_same_resolution [OF a1 a2 n t1 l1 t2 l2 f i o] a1 a2 n t1 t2 l1 l2 by blast
qed

text \<open>
  The table, the fuzzy matcher and the providers other than OpenAI have nothing for
  the key \<^verbatim>\<open>3m\<close>: with an empty cache such a call is settled by the OpenAI step.
\<close>

lemma key_3m_reaches_openai:
  assumes "normalizeString s = ''3m''" and "\<not> isTickerSymbol (toUpperCase (trim s))"
    and "FINNHUB_API_KEY w = None" and "IEX_CLOUD_API_KEY w = None"
  shows "resolveTickerOrCompanyName w localTickerMapping now (JS_string s) default_options [] =
         openai_step w now (attempt_event (trim s) now) ''3m'' (trim s) []"
  using assms catalog_misses_3m fuzzy_3m_empty
  by (simp add: resolveTickerOrCompanyName_def trim_method_def normalizeInput_def then_do_def
      Let_def cache_step_def getCachedResolution_def local_step_def api_step_def api_lookup_def
      tryFinnhubLookup_def tryIexCloudLookup_def truthy_def filter_by_exchange_Nil fuzzy_step_def
      default_options_def)

text \<open>
  C2 as stated fails, in each way the amended statement rules out. All calls start
  from the empty cache at time 0 with the default options.

  \<^item> \<^verbatim>\<open>BRK.B\<close> and \<^verbatim>\<open>BRKB\<close> have the same key, both are ticker-shaped, and each is
    returned as its own ticker.
  \<^item> \<^verbatim>\<open>NVIDIA\<close> and \<^verbatim>\<open>Nvidia.\<close> have the same key; the first, six letters, is taken
    for a ticker, the second is found in the table as \<^verbatim>\<open>NVDA\<close>.
  \<^item> \<^verbatim>\<open>3M\<close> and \<^verbatim>\<open>3-M\<close> have the same key and the providers are queried with the raw
    input: a provider that knows \<^verbatim>\<open>3M\<close> only resolves the first and not the second.
  \<^item> With a provider that answers both queries alike and names no company, the two
    results still differ in the company name, which is the raw input.
\<close>

theorem same_key_different_ticker:
  "normalizeString ''BRK.B'' = normalizeString ''BRKB'' \<and>
   resolveTickerOrCompanyName no_providers localTickerMapping 0 (JS_string ''BRK.B'')
       default_options [] =
     Inr (Resolved
            \<lparr>ticker = Some ''BRK.B'', exchange = Some ''UNKNOWN'', name = None,
             companyName = None, confidence = Some 1, resolvedFrom = ''input_detection'',
             telemetry = Some
               \<lparr>ev_type = ''ticker_resolution_detected_ticker'', ev_input = ''BRK.B'',
                ev_timestamp = 0, ev_ticker = Some ''BRK.B'', ev_confidence = None,
                ev_resolvedFrom = Some ''input_detection'', ev_matches = None,
                ev_candidates = None\<rparr>\<rparr>,
          []) \<and>
   resolveTickerOrCompanyName no_providers localTickerMapping 0 (JS_string ''BRKB'')
       default_options [] =
     Inr (Resolved
            \<lparr>ticker = Some ''BRKB'', exchange = Some ''UNKNOWN'', name = None,
             companyName = None, confidence = Some 1, resolvedFrom = ''input_detection'',
             telemetry = Some
               \<lparr>ev_type = ''ticker_resolution_detected_ticker'', ev_input = ''BRKB'',
                ev_timestamp = 0, ev_ticker = Some ''BRKB'', ev_confidence = None,
                ev_resolvedFrom = Some ''input_detection'', ev_matches = None,
                ev_candidates = None\<rparr>\<rparr>,
          []) \<and>
   normalizeString ''NVIDIA'' = normalizeString ''Nvidia.'' \<and>
   resolveTickerOrCompanyName no_providers localTickerMapping 0 (JS_string ''NVIDIA'')
       default_options [] =
     Inr (Resolved
            \<lparr>ticker = Some ''NVIDIA'', exchange = Some ''UNKNOWN'', name = None,
             companyName = None, confidence = Some 1, resolvedFrom = ''input_detection'',
             telemetry = Some
               \<lparr>ev_type = ''ticker_resolution_detected_ticker'', ev_input = ''NVIDIA'',
                ev_timestamp = 0, ev_ticker = Some ''NVIDIA'', ev_confidence = None,
                ev_resolvedFrom = Some ''input_detection'', ev_matches = None,
                ev_candidates = None\<rparr>\<rparr>,
          []) \<and>
   map_sum id fst (resolveTickerOrCompanyName no_providers localTickerMapping 0
       (JS_string ''Nvidia.'') default_options []) =
     Inr (Resolved
            \<lparr>ticker = Some ''NVDA'', exchange = Some ''NASDAQ'', name = Some ''nvidia'',
             companyName = None, confidence = Some (99 / 100), resolvedFrom = ''local_cache'',
             telemetry = Some
               \<lparr>ev_type = ''symbol_resolved'', ev_input = ''Nvidia.'',
                ev_timestamp = 0, ev_ticker = Some ''NVDA'', ev_confidence = Some (99 / 100),
                ev_resolvedFrom = Some ''local_cache'', ev_matches = None,
                ev_candidates = None\<rparr>\<rparr>) \<and>
   normalizeString ''3M'' = normalizeString ''3-M'' \<and>
   resolveTickerOrCompanyName openai_knows_3M localTickerMapping 0 (JS_string ''3M'')
       default_options [] =
     Inr (Resolved (mmm_from_openai ''3M''),
          [(''3m'', \<lparr>data = mmm_from_openai ''3M'', timestamp = 0\<rparr>)]) \<and>
   resolveTickerOrCompanyName openai_knows_3M localTickerMapping 0 (JS_string ''3-M'')
       default_options [] =
     Inr (Resolved (not_found_result ''3-M'' 0), []) \<and>
   resolveTickerOrCompanyName openai_always_MMM localTickerMapping 0 (JS_string ''3M'')
       default_options [] =
     Inr (Resolved (mmm_from_openai ''3M''),
          [(''3m'', \<lparr>data = mmm_from_openai ''3M'', timestamp = 0\<rparr>)]) \<and>
   resolveTickerOrCompanyName openai_always_MMM localTickerMapping 0 (JS_string ''3-M'')
       default_options [] =
     Inr (Resolved (mmm_from_openai ''3-M''),
          [(''3m'', \<lparr>data = mmm_from_openai ''3-M'', timestamp = 0\<rparr>)]) \<and>
   companyName (mmm_from_openai ''3M'') = Some ''3M'' \<and>
   companyName (mmm_from_openai ''3-M'') = Some ''3-M''"
proof -
  have brk: "normalizeString ''BRK.B'' = normalizeString ''BRKB''"
    by code_simp
  have brk1: "resolveTickerOrCompanyName no_providers localTickerMapping 0 (JS_string ''BRK.B'')
       default_options [] =
     Inr (Resolved
            \<lparr>ticker = Some ''BRK.B'', exchange = Some ''UNKNOWN'', name = None,
             companyName = None, confidence = Some 1, resolvedFrom = ''input_detection'',
             telemetry = Some
               \<lparr>ev_type = ''ticker_resolution_detected_ticker'', ev_input = ''BRK.B'',
                ev_timestamp = 0, ev_ticker = Some ''BRK.B'', ev_confidence = None,
                ev_resolvedFrom = Some ''input_detection'', ev_matches = None,
                ev_candidates = None\<rparr>\<rparr>,
          [])"
    by code_simp
  have brk2: "resolveTickerOrCompanyName no_providers localTickerMapping 0 (JS_string ''BRKB'')
       default_options [] =
     Inr (Resolved
            \<lparr>ticker = Some ''BRKB'', exchange = Some ''UNKNOWN'', name = None,
             companyName = None, confidence = Some 1, resolvedFrom = ''input_detection'',
             telemetry = Some
               \<lparr>ev_type = ''ticker_resolution_detected_ticker'', ev_input = ''BRKB'',
                ev_timestamp = 0, ev_ticker = Some ''BRKB'', ev_confidence = None,
                ev_resolvedFrom = Some ''input_detection'', ev_matches = None,
                ev_candidates = None\<rparr>\<rparr>,
          [])"
    by code_simp
  have nv: "normalizeString ''NVIDIA'' = normalizeString ''Nvidia.''"
    by code_simp
  have nv1: "resolveTickerOrCompanyName no_providers localTickerMapping 0 (JS_string ''NVIDIA'')
       default_options [] =
     Inr (Resolved
            \<lparr>ticker = Some ''NVIDIA'', exchange = Some ''UNKNOWN'', name = None,
             companyName = None, confidence = Some 1, resolvedFrom = ''input_detection'',
             telemetry = Some
               \<lparr>ev_type = ''ticker_resolution_detected_ticker'', ev_input = ''NVIDIA'',
                ev_timestamp = 0, ev_ticker = Some ''NVIDIA'', ev_confidence = None,
                ev_resolvedFrom = Some ''input_detection'', ev_matches = None,
                ev_candidates = None\<rparr>\<rparr>,
          [])"
    by code_simp
  have nv2: "map_sum id fst (resolveTickerOrCompanyName no_providers localTickerMapping 0
       (JS_string ''Nvidia.'') default_options []) =
     Inr (Resolved
            \<lparr>ticker = Some ''NVDA'', exchange = Some ''NASDAQ'', name = Some ''nvidia'',
             companyName = None, confidence = Some (99 / 100), resolvedFrom = ''local_cache'',
             telemetry = Some
               \<lparr>ev_type = ''symbol_resolved'', ev_input = ''Nvidia.'',
                ev_timestamp = 0, ev_ticker = Some ''NVDA'', ev_confidence = Some (99 / 100),
                ev_resolvedFrom = Some ''local_cache'', ev_matches = None,
                ev_candidates = None\<rparr>\<rparr>)"
    by code_simp
  have k1: "normalizeString ''3M'' = ''3m''" and k2: "normalizeString ''3-M'' = ''3m''"
    by code_simp+
  have t1: "trim ''3M'' = ''3M''" and t2: "trim ''3-M'' = ''3-M''"
    by code_simp+
  have n1: "\<not> isTickerSymbol (toUpperCase (trim ''3M''))"
    and n2: "\<not> isTickerSymbol (toUpperCase (trim ''3-M''))"
    by code_simp+
  have f: "FINNHUB_API_KEY openai_knows_3M = None" "IEX_CLOUD_API_KEY openai_knows_3M = None"
    by (simp_all add: openai_knows_3M_def)
  have g: "FINNHUB_API_KEY openai_always_MMM = None" "IEX_CLOUD_API_KEY openai_always_MMM = None"
    by (simp_all add: openai_always_MMM_def)
  have "openai_step openai_knows_3M 0 (attempt_event ''3M'' 0) ''3m'' ''3M'' [] =
     Inr (Resolved (mmm_from_openai ''3M''),
          [(''3m'', \<lparr>data = mmm_from_openai ''3M'', timestamp = 0\<rparr>)])"
    by code_simp
  with key_3m_reaches_openai [OF k1 n1 f, of 0]
  have m1: "resolveTickerOrCompanyName openai_knows_3M localTickerMapping 0 (JS_string ''3M'')
       default_options [] =
     Inr (Resolved (mmm_from_openai ''3M''),
          [(''3m'', \<lparr>data = mmm_from_openai ''3M'', timestamp = 0\<rparr>)])"
    by (simp only: t1)
  have "openai_step openai_knows_3M 0 (attempt_event ''3-M'' 0) ''3m'' ''3-M'' [] =
     Inr (Resolved (not_found_result ''3-M'' 0), [])"
    by code_simp
  with key_3m_reaches_openai [OF k2 n2 f, of 0]
  have m2: "resolveTickerOrCompanyName openai_knows_3M localTickerMapping 0 (JS_string ''3-M'')
       default_options [] =
     Inr (Resolved (not_found_result ''3-M'' 0), [])"
    by (simp only: t2)
  have "openai_step openai_always_MMM 0 (attempt_event ''3M'' 0) ''3m'' ''3M'' [] =
     Inr (Resolved (mmm_from_openai ''3M''),
          [(''3m'', \<lparr>data = mmm_from_openai ''3M'', timestamp = 0\<rparr>)])"
    by code_simp
  with key_3m_reaches_openai [OF k1 n1 g, of 0]
  have m3: "resolveTickerOrCompanyName openai_always_MMM localTickerMapping 0 (JS_string ''3M'')
       default_options [] =
     Inr (Resolved (mmm_from_openai ''3M''),
          [(''3m'', \<lparr>data = mmm_from_openai ''3M'', timestamp = 0\<rparr>)])"
    by (simp only: t1)
  have "openai_step openai_always_MMM 0 (attempt_event ''3-M'' 0) ''3m'' ''3-M'' [] =
     Inr (Resolved (mmm_from_openai ''3-M''),
          [(''3m'', \<lparr>data = mmm_from_openai ''3-M'', timestamp = 0\<rparr>)])"
    by code_simp
  with key_3m_reaches_openai [OF k2 n2 g, of 0]
  have m4: "resolveTickerOrCompanyName openai_always_MMM localTickerMapping 0 (JS_string ''3-M'')
       default_options [] =
     Inr (Resolved (mmm_from_openai ''3-M''),
          [(''3m'', \<lparr>data = mmm_from_openai ''3-M'', timestamp = 0\<rparr>)])"
    by (simp only: t2)
  have k: "normalizeString ''3M'' = normalizeString ''3-M''"
    by (simp only: k1 k2)
  have e: "companyName (mmm_from_openai ''3M'') = Some ''3M''"
    "companyName (mmm_from_openai ''3-M'') = Some ''3-M''"
    by (simp_all add: mmm_from_openai_def)
  from brk brk1 brk2 nv nv1 nv2 k m1 m2 m3 m4 e show ?thesis
    by (intro conjI)
qed

subsection \<open>The fuzzy matcher\<close>

lemma sorted_by_confidence:
  assumes "\<forall>r \<in> set rs. confidence r \<noteq> None"
  shows "sorted_wrt (\<lambda>a b. confidence b \<le> confidence a) (sort_by_confidence rs)"
proof -
  let ?key = "\<lambda>r. case confidence r of Some q \<Rightarrow> - q | None \<Rightarrow> (0 :: rat)"
  have "sorted (map ?key (sort_key ?key rs))"
    by (rule sorted_sort_key)
  then have "sorted_wrt (\<lambda>a b. ?key a \<le> ?key b) (sort_by_confidence rs)"
    by (simp add: sort_by_confidence_def sorted_map)
  moreover have "confidence b \<le> confidence a"
    if "a \<in> set (sort_by_confidence rs)" "b \<in> set (sort_by_confidence rs)" "?key a \<le> ?key b"
    for a b
  proof -
    from that(1,2) assms have "confidence a \<noteq> None" "confidence b \<noteq> None"
      by (simp_all add: sort_by_confidence_def)
    then obtain p q where "confidence a = Some p" "confidence b = Some q"
      by auto
    with that(3) show ?thesis by simp
  qed
  ultimately show ?thesis
    by (rule sorted_wrt_mono_rel [rotated])
qed

lemma set_sort_by_confidence: "set (sort_by_confidence rs) = set rs"
  by (simp add: sort_by_confidence_def)

lemma stable_sort_by_confidence:
  "filter (\<lambda>r. confidence r = q) (sort_by_confidence rs) = filter (\<lambda>r. confidence r = q) rs"
proof -
  let ?key = "\<lambda>r. case confidence r of Some q \<Rightarrow> - q | None \<Rightarrow> (0 :: rat)"
  let ?k = "case q of Some q \<Rightarrow> - q | None \<Rightarrow> (0 :: rat)"
  have sub: "filter (\<lambda>r. confidence r = q) xs = filter (\<lambda>r. confidence r = q)
               (filter (\<lambda>r. ?key r = ?k) xs)" for xs
    by (induction xs) auto
  have "filter (\<lambda>r. ?key r = ?k) (sort_key ?key rs) = filter (\<lambda>r. ?key r = ?k) rs"
    by (rule sort_key_stable)
  then have "filter (\<lambda>r. confidence r = q) (filter (\<lambda>r. ?key r = ?k) (sort_by_confidence rs)) =
             filter (\<lambda>r. confidence r = q) (filter (\<lambda>r. ?key r = ?k) rs)"
    by (simp only: sort_by_confidence_def)
  then show ?thesis
    using sub [of "sort_by_confidence rs"] sub [of rs] by simp
qed

text \<open>
  C8, amended. The fuzzy matcher keeps exactly the table entries whose similarity to
  the key is at least the threshold (0.65 itself is kept, 0.649999 is not), one
  candidate each, and returns them in descending order of their confidence, which
  is the similarity rounded to two decimals; candidates of equal confidence stay in
  table order.
\<close>

theorem fuzzy_keeps_threshold_sorts_by_confidence:
  "set (fuzzyMatchLocalTickers table key threshold) =
     fuzzy_candidate key ` {e \<in> set table. js_ge (fuzzy_similarity key (fst e)) threshold} \<and>
   length (fuzzyMatchLocalTickers table key threshold) =
     length (filter (\<lambda>e. js_ge (fuzzy_similarity key (fst e)) threshold) table) \<and>
   sorted_wrt (\<lambda>a b. confidence b \<le> confidence a) (fuzzyMatchLocalTickers table key threshold) \<and>
   filter (\<lambda>r. confidence r = q) (fuzzyMatchLocalTickers table key threshold) =
     filter (\<lambda>r. confidence r = q)
       (map (fuzzy_candidate key)
          (filter (\<lambda>e. js_ge (fuzzy_similarity key (fst e)) threshold) table)) \<and>
   js_ge (Some (65 / 100)) (65 / 100) \<and> \<not> js_ge (Some (649999 / 1000000)) (65 / 100)"
proof -
  let ?kept = "filter (\<lambda>e. js_ge (fuzzy_similarity key (fst e)) threshold) table"
  have "js_ge (Some (65 / 100)) (65 / 100)" "\<not> js_ge (Some (649999 / 1000000)) (65 / 100)"
    by (simp_all add: js_ge_def)
  moreover have "length (sort_by_confidence rs) = length rs" for rs
    by (simp add: sort_by_confidence_def)
  moreover have "\<forall>r \<in> set (map (fuzzy_candidate key) ?kept). confidence r \<noteq> None"
    by (auto simp: fuzzy_candidate_def js_ge_def split: option.splits)
  then have "sorted_wrt (\<lambda>a b. confidence b \<le> confidence a)
               (sort_by_confidence (map (fuzzy_candidate key) ?kept))"
    by (rule sorted_by_confidence)
  ultimately show ?thesis
    by (simp add: fuzzyMatchLocalTickers_def Let_def set_sort_by_confidence
        stable_sort_by_confidence)
qed

theorem fuzzy_keeps_threshold_sorts_by_confidence_witness:
  "sorted_wrt (\<lambda>a b. confidence b \<le> confidence a)
     (fuzzyMatchLocalTickers localTickerMapping ''psoftcorporation'' (65 / 100)) \<and>
   length (fuzzyMatchLocalTickers localTickerMapping ''psoftcorporation'' (65 / 100)) =
     length (filter (\<lambda>e. js_ge (fuzzy_similarity ''psoftcorporation'' (fst e)) (65 / 100))
               localTickerMapping)"
  using fuzzy_keeps_threshold_sorts_by_confidence
    [of localTickerMapping "''psoftcorporation''" "65 / 100" "Some (71 / 100)"]
  by blast

lemma stable_sort_keeps_table_order:
  assumes "table = A @ e1 # B @ e2 # C"
    and "P e1" and "P e2"
    and "confidence (g e1) = confidence (g e2)"
    and "\<not> R (g e1) (g e2)"
  shows "\<not> sorted_wrt R (sort_by_confidence (map g (filter P table)))"
proof
  assume "sorted_wrt R (sort_by_confidence (map g (filter P table)))"
  then have "sorted_wrt R (filter (\<lambda>r. confidence r = confidence (g e1))
                (sort_by_confidence (map g (filter P table))))"
    by (rule sorted_wrt_filter)
  then have "sorted_wrt R (filter (\<lambda>r. confidence r = confidence (g e1)) (map g (filter P table)))"
    by (simp only: stable_sort_by_confidence)
  with assms(1-4) have "R (g e1) (g e2)"
    by (simp add: sorted_wrt_append)
  with assms(5) show False by contradiction
qed

text \<open>
  C8 as stated fails: the order is not always descending in the similarity. For the
  key of \<^verbatim>\<open>Psoft Corporation\<close> the matcher lists \<^verbatim>\<open>apple corporation\<close>
  (similarity 12/17) before \<^verbatim>\<open>microsoft corporation\<close> (similarity 5/7): both
  round to 0.71 and keep their table order.
\<close>

theorem fuzzy_not_sorted_by_similarity:
  "\<not> sorted_wrt (\<lambda>a b. similarity_of ''psoftcorporation'' b \<le> similarity_of ''psoftcorporation'' a)
       (fuzzyMatchLocalTickers localTickerMapping (normalizeString ''Psoft Corporation'') (65 / 100))"
proof -
  let ?key = "''psoftcorporation''"
  let ?e1 = "(''apple corporation'',
              \<lparr>info_ticker = ''AAPL'', info_exchange = ''NASDAQ'', info_confidence = 99 / 100\<rparr>)"
  let ?e2 = "(''microsoft corporation'',
              \<lparr>info_ticker = ''MSFT'', info_exchange = ''NASDAQ'', info_confidence = 99 / 100\<rparr>)"
  have k: "normalizeString ''Psoft Corporation'' = ?key" by code_simp
  have s1: "fuzzy_similarity ?key ''apple corporation'' = Some (12 / 17)" by code_simp
  have s2: "fuzzy_similarity ?key ''microsoft corporation'' = Some (5 / 7)" by code_simp
  have r1: "round2 (12 / 17) = 71 / 100" by code_simp
  have r2: "round2 (5 / 7) = 71 / 100" by code_simp
  have t: "localTickerMapping = take 2 localTickerMapping @ ?e1 #
             [localTickerMapping ! 3] @ ?e2 # drop 5 localTickerMapping"
    by (simp add: localTickerMapping_def)
  have "\<not> sorted_wrt (\<lambda>a b. similarity_of ?key b \<le> similarity_of ?key a)
          (sort_by_confidence (map (fuzzy_candidate ?key)
             (filter (\<lambda>e. js_ge (fuzzy_similarity ?key (fst e)) (65 / 100)) localTickerMapping)))"
    by (rule stable_sort_keeps_table_order [OF t])
       (simp_all add: s1 s2 r1 r2 js_ge_def fuzzy_candidate_def similarity_of_def)
  then show ?thesis
    by (simp add: fuzzyMatchLocalTickers_def k)
qed


end
